theory Spec2Isabelle
  imports Main
begin

section \<open>Python values, exceptions and observable calls\<close>

text \<open>
  The tool handlers of \<^verbatim>\<open>aden_tools/tools/composio_tools\<close> exchange JSON-like
  Python values with the Composio SDK. A dictionary is an association list in insertion
  order (keys are looked up with \<open>map_of\<close>, the first binding wins; a Python dict has
  each key once). Floating-point numbers are left out: the handlers only pass them through.
\<close>

datatype pyval =
    PNone
  | PBool bool
  | PInt int
  | PStr string
  | PList "pyval list"
  | PDict "(string \<times> pyval) list"

text \<open>A returned envelope is a Python \<^verbatim>\<open>dict\<close> with string keys.\<close>

type_synonym envelope = "(string \<times> pyval) list"

text \<open>
  An exception (any subclass of \<^verbatim>\<open>Exception\<close>) is carried by its message, the text
  that \<^verbatim>\<open>str(e)\<close> gives.
\<close>

datatype exn = Exn string

fun str_exn :: "exn \<Rightarrow> string" where
  "str_exn (Exn m) = m"

text \<open>The remote actions of \<^verbatim>\<open>composio.Action\<close> that the handlers name.\<close>

datatype action =
    GMAIL_SEND_EMAIL
  | GMAIL_FETCH_EMAILS
  | GMAIL_CREATE_EMAIL_DRAFT
  | LINKEDIN_CREATE_LINKED_IN_POST
  | LINKEDIN_GET_COMPANY_INFO
  | LINKEDIN_SEARCH_PEOPLE
  | LINKEDIN_SEND_MESSAGE

text \<open>
  Every call that leaves a handler is recorded, in order, with its arguments:
  entering the connection gate, the credential lookup, the environment lookup, the
  construction of the client, and the four calls on the remote service.
\<close>

datatype event =
    EnsureOAuthConnection string
  | CredentialGet string
  | GetEnv string
  | NewClient string
  | GetEntity string
  | GetConnection string
  | InitiateConnection string string
  | ExecuteAction action "(string \<times> pyval) list"

fun is_remote :: "event \<Rightarrow> bool" where
  "is_remote (GetEntity _) = True"
| "is_remote (GetConnection _) = True"
| "is_remote (InitiateConnection _ _) = True"
| "is_remote (ExecuteAction _ _) = True"
| "is_remote _ = False"

fun is_execute_action :: "event \<Rightarrow> bool" where
  "is_execute_action (ExecuteAction _ _) = True"
| "is_execute_action _ = False"

subsection \<open>Computations: a trace of calls and a value or a raised exception\<close>

type_synonym 'a io = "event list \<times> (exn + 'a)"

definition io_return :: "'a \<Rightarrow> 'a io" where
  "io_return x = ([], Inr x)"

definition io_raise :: "exn \<Rightarrow> 'a io" where
  "io_raise e = ([], Inl e)"

text \<open>A pure step that may raise (attribute access, slicing, \<^verbatim>\<open>len\<close>).\<close>

definition io_lift :: "exn + 'a \<Rightarrow> 'a io" where
  "io_lift r = ([], r)"

text \<open>A call on a collaborator: the event is recorded whether the call returns or raises.\<close>

definition io_call :: "event \<Rightarrow> exn + 'a \<Rightarrow> 'a io" where
  "io_call ev r = ([ev], r)"

text \<open>Sequencing: a raised exception skips the rest.\<close>

definition io_bind :: "'a io \<Rightarrow> ('a \<Rightarrow> 'b io) \<Rightarrow> 'b io" where
  "io_bind m f =
     (case m of
        (t, Inl e) \<Rightarrow> (t, Inl e)
      | (t, Inr x) \<Rightarrow> (case f x of (t', r) \<Rightarrow> (t @ t', r)))"

text \<open>\<^verbatim>\<open>try: m  except Exception as e: h e\<close>\<close>

definition io_try :: "'a io \<Rightarrow> (exn \<Rightarrow> 'a io) \<Rightarrow> 'a io" where
  "io_try m h =
     (case m of
        (t, Inl e) \<Rightarrow> (case h e of (t', r) \<Rightarrow> (t @ t', r))
      | (t, Inr x) \<Rightarrow> (t, Inr x))"

definition ex_bind :: "exn + 'a \<Rightarrow> ('a \<Rightarrow> exn + 'b) \<Rightarrow> exn + 'b" where
  "ex_bind r f = (case r of Inl e \<Rightarrow> Inl e | Inr x \<Rightarrow> f x)"

subsection \<open>The Python operations the handlers apply to remote results\<close>

fun type_name :: "pyval \<Rightarrow> string" where
  "type_name PNone = ''NoneType''"
| "type_name (PBool _) = ''bool''"
| "type_name (PInt _) = ''int''"
| "type_name (PStr _) = ''str''"
| "type_name (PList _) = ''list''"
| "type_name (PDict _) = ''dict''"

definition attribute_error :: "string \<Rightarrow> string \<Rightarrow> exn" where
  "attribute_error ty attr =
     Exn ([CHR 0x27] @ ty @ [CHR 0x27] @ '' object has no attribute '' @
          [CHR 0x27] @ attr @ [CHR 0x27])"

text \<open>\<^verbatim>\<open>bool(v)\<close>, as an \<^verbatim>\<open>if\<close> applies it.\<close>

fun py_truthy :: "pyval \<Rightarrow> bool" where
  "py_truthy PNone = False"
| "py_truthy (PBool b) = b"
| "py_truthy (PInt i) = (i \<noteq> 0)"
| "py_truthy (PStr s) = (s \<noteq> [])"
| "py_truthy (PList xs) = (xs \<noteq> [])"
| "py_truthy (PDict kvs) = (kvs \<noteq> [])"

text \<open>\<^verbatim>\<open>v.get(key, default)\<close>: only a dict has the method.\<close>

fun py_get :: "pyval \<Rightarrow> string \<Rightarrow> pyval \<Rightarrow> exn + pyval" where
  "py_get (PDict kvs) k d = Inr (case map_of kvs k of Some v \<Rightarrow> v | None \<Rightarrow> d)"
| "py_get v k d = Inl (attribute_error (type_name v) ''get'')"

text \<open>
  \<^verbatim>\<open>v[:k]\<close> followed by iteration, giving the items visited. A list and a string can
  be sliced (a negative bound counts from the end); the items of a string are its
  one-character strings. A dict rejects a slice as a key (the text of that exception
  is the one of CPython up to 3.11); the other values are not subscriptable.
\<close>

definition slice_upto :: "'a list \<Rightarrow> int \<Rightarrow> 'a list" where
  "slice_upto xs k = (if 0 \<le> k then take (nat k) xs else take (length xs - nat (- k)) xs)"

fun py_slice_items :: "pyval \<Rightarrow> int \<Rightarrow> exn + pyval list" where
  "py_slice_items (PList xs) k = Inr (slice_upto xs k)"
| "py_slice_items (PStr s) k = Inr (map (\<lambda>c. PStr [c]) (slice_upto s k))"
| "py_slice_items (PDict kvs) k =
     Inl (Exn (''unhashable type: '' @ [CHR 0x27] @ ''slice'' @ [CHR 0x27]))"
| "py_slice_items v k =
     Inl (Exn ([CHR 0x27] @ type_name v @ [CHR 0x27] @ '' object is not subscriptable''))"

text \<open>\<^verbatim>\<open>len(v)\<close>\<close>

fun py_len :: "pyval \<Rightarrow> exn + int" where
  "py_len (PList xs) = Inr (int (length xs))"
| "py_len (PStr s) = Inr (int (length s))"
| "py_len (PDict kvs) = Inr (int (length kvs))"
| "py_len v =
     Inl (Exn (''object of type '' @ [CHR 0x27] @ type_name v @ [CHR 0x27] @ '' has no len()''))"

text \<open>A list comprehension whose body may raise: the first exception ends it.\<close>

fun ex_map :: "('a \<Rightarrow> exn + 'b) \<Rightarrow> 'a list \<Rightarrow> exn + 'b list" where
  "ex_map f [] = Inr []"
| "ex_map f (x # xs) = ex_bind (f x) (\<lambda>y. ex_bind (ex_map f xs) (\<lambda>ys. Inr (y # ys)))"

text \<open>
  \<^verbatim>\<open>str(v)\<close>. A string is a sequence of code points below 256. The \<^verbatim>\<open>repr\<close> of a
  string picks the quote as CPython does, escapes the quote, the backslash, tab, newline and
  carriage return, and writes the other non-printable code points as \<^verbatim>\<open>\xhh\<close>.
\<close>

definition digit_char :: "nat \<Rightarrow> char" where
  "digit_char d = ''0123456789abcdef'' ! d"

function nat_digits :: "nat \<Rightarrow> string" where
  "nat_digits n =
     (if n < 10 then [digit_char n] else nat_digits (n div 10) @ [digit_char (n mod 10)])"
  by pat_completeness auto
termination
  by (relation "measure id") auto

definition int_str :: "int \<Rightarrow> string" where
  "int_str i = (if i < 0 then ''-'' @ nat_digits (nat (- i)) else nat_digits (nat i))"

definition printable :: "char \<Rightarrow> bool" where
  "printable c =
     (let n = (of_char c :: nat) in \<not> (n < 32 \<or> (127 \<le> n \<and> n \<le> 160) \<or> n = 173))"

definition repr_char :: "char \<Rightarrow> char \<Rightarrow> string" where
  "repr_char q c =
     (if c = q \<or> c = CHR 0x5C then [CHR 0x5C, c]
      else if c = CHR 0x09 then [CHR 0x5C, CHR ''t'']
      else if c = CHR 0x0A then [CHR 0x5C, CHR ''n'']
      else if c = CHR 0x0D then [CHR 0x5C, CHR ''r'']
      else if printable c then [c]
      else [CHR 0x5C, CHR ''x'', digit_char (of_char c div 16), digit_char (of_char c mod 16)])"

definition repr_str :: "string \<Rightarrow> string" where
  "repr_str s =
     (let q = (if CHR 0x27 \<in> set s \<and> CHR 0x22 \<notin> set s then CHR 0x22 else CHR 0x27)
      in [q] @ concat (map (repr_char q) s) @ [q])"

fun join :: "string \<Rightarrow> string list \<Rightarrow> string" where
  "join sep [] = []"
| "join sep [x] = x"
| "join sep (x # y # ys) = x @ sep @ join sep (y # ys)"

fun py_repr :: "pyval \<Rightarrow> string" where
  "py_repr PNone = ''None''"
| "py_repr (PBool b) = (if b then ''True'' else ''False'')"
| "py_repr (PInt i) = int_str i"
| "py_repr (PStr s) = repr_str s"
| "py_repr (PList xs) = ''['' @ join '', '' (map py_repr xs) @ '']''"
| "py_repr (PDict kvs) =
     ''{'' @ join '', '' (map (\<lambda>kv. repr_str (fst kv) @ '': '' @ py_repr (snd kv)) kvs) @ ''}''"

fun py_str :: "pyval \<Rightarrow> string" where
  "py_str (PStr s) = s"
| "py_str v = py_repr v"

text \<open>\<^verbatim>\<open>sub in s\<close> on strings.\<close>

fun contains :: "string \<Rightarrow> string \<Rightarrow> bool" where
  "contains sub [] = (sub = [])"
| "contains sub (c # cs) = (take (length sub) (c # cs) = sub \<or> contains sub cs)"

text \<open>\<^verbatim>\<open>s.lower()\<close> on the letters A to Z; the application names are ASCII.\<close>

definition lower_char :: "char \<Rightarrow> char" where
  "lower_char c =
     (let n = (of_char c :: nat) in if 65 \<le> n \<and> n \<le> 90 then char_of (n + 32) else c)"

definition lower :: "string \<Rightarrow> string" where
  "lower s = map lower_char s"

section \<open>The collaborators\<close>

text \<open>
  The Composio SDK, the credential manager and the process environment are outside the
  repository. Each is a record of the operations the handlers call on it; an operation
  returns a value (\<open>Inr\<close>) or raises (\<open>Inl\<close>).

  \<^item> \<open>status\<close> is \<^verbatim>\<open>getattr(connection, "status", None)\<close>: \<open>None\<close> when the attribute
    is missing or holds \<^verbatim>\<open>None\<close>.
  \<^item> \<open>redirectUrl\<close> is \<^verbatim>\<open>getattr(connection_request, "redirectUrl", None)\<close>.
  \<^item> \<open>get_connection\<close> gives \<open>None\<close> for a falsy result.
\<close>

record connection =
  status :: "string option"

record connection_request =
  redirectUrl :: "string option"

record entity =
  get_connection :: "string \<Rightarrow> exn + connection option"
  initiate_connection :: "string \<Rightarrow> string \<Rightarrow> exn + connection_request"

record client =
  get_entity :: "string \<Rightarrow> exn + entity"
  execute_action :: "action \<Rightarrow> (string \<times> pyval) list \<Rightarrow> exn + pyval"

text \<open>
  \<^item> \<open>sdk_installed\<close>: \<^verbatim>\<open>from composio import ComposioToolSet\<close> succeeds (otherwise it
    raises \<^verbatim>\<open>ImportError\<close>).
  \<^item> \<open>credentials\<close>: the \<^verbatim>\<open>credentials\<close> argument of \<^verbatim>\<open>register_tools\<close>, by its
    \<^verbatim>\<open>get\<close> method; \<open>None\<close> when no credential manager is given.
  \<^item> \<open>getenv\<close>: \<^verbatim>\<open>os.getenv\<close>.
  \<^item> \<open>ComposioToolSet\<close>: the constructor of the client, from the API key.
  \<^item> \<open>import_Action\<close>: the exception of \<^verbatim>\<open>from composio import Action\<close>, if it raises.
  \<^item> \<open>Action_member\<close>: the exception of the attribute access \<^verbatim>\<open>Action.NAME\<close>, if it
    raises.
\<close>

record world =
  sdk_installed :: bool
  credentials :: "(string \<Rightarrow> exn + string option) option"
  getenv :: "string \<Rightarrow> string option"
  ComposioToolSet :: "string \<Rightarrow> exn + client"
  import_Action :: "exn option"
  Action_member :: "action \<Rightarrow> exn option"

section \<open>The connection gate\<close>

text \<open>
  \<^verbatim>\<open>gmail_tools.py\<close> and \<^verbatim>\<open>linkedin_tools.py\<close> each define \<^verbatim>\<open>_get_composio_client\<close>,
  \<^verbatim>\<open>_check_oauth_connection\<close> and \<^verbatim>\<open>_ensure_oauth_connection\<close> with the same body (only
  the default of \<^verbatim>\<open>app_name\<close> differs, and every caller passes it); they are given once,
  under their names without the leading underscore.
\<close>

definition GMAIL_APP_NAME :: string where
  "GMAIL_APP_NAME = ''GMAIL''"

definition LINKEDIN_APP_NAME :: string where
  "LINKEDIN_APP_NAME = ''LINKEDIN''"

text \<open>Truthiness of an \<^verbatim>\<open>Optional[str]\<close>.\<close>

fun truthy_str :: "string option \<Rightarrow> bool" where
  "truthy_str None = False"
| "truthy_str (Some s) = (s \<noteq> [])"

definition api_key_not_set :: string where
  "api_key_not_set = ''COMPOSIO_API_KEY not set. Get one at https://app.composio.dev/settings''"

text \<open>
  The result is \<^verbatim>\<open>(client, error)\<close>. \<^verbatim>\<open>if not api_key\<close> rejects \<^verbatim>\<open>None\<close> and the
  empty string. Only the import is inside a \<^verbatim>\<open>try\<close>: an exception of the credential
  lookup or of the constructor leaves the function.
\<close>

definition get_composio_client :: "world \<Rightarrow> (client option \<times> string option) io" where
  "get_composio_client w =
     (if \<not> sdk_installed w then
        io_return (None, Some ''Composio SDK not installed. Run: pip install composio-core'')
      else
        io_bind
          (case credentials w of
             Some cm \<Rightarrow> io_call (CredentialGet ''composio'') (cm ''composio'')
           | None \<Rightarrow> io_call (GetEnv ''COMPOSIO_API_KEY'') (Inr (getenv w ''COMPOSIO_API_KEY'')))
          (\<lambda>api_key.
             case api_key of
               None \<Rightarrow> io_return (None, Some api_key_not_set)
             | Some k \<Rightarrow>
                 if k = [] then io_return (None, Some api_key_not_set)
                 else
                   io_bind (io_call (NewClient k) (ComposioToolSet w k))
                     (\<lambda>c. io_return (Some c, None))))"

definition dashboard_url :: "string \<Rightarrow> string" where
  "dashboard_url app_name = ''https://app.composio.dev/app/'' @ lower app_name"

definition connection_active :: "connection option \<Rightarrow> bool" where
  "connection_active connection =
     (case connection of
        None \<Rightarrow> False
      | Some c \<Rightarrow> status c = Some ''ACTIVE'' \<or> status c = None)"

text \<open>
  The result is \<^verbatim>\<open>(is_connected, oauth_url, error_message)\<close>. The inner \<^verbatim>\<open>try\<close>
  around \<^verbatim>\<open>get_connection\<close> swallows its exception and falls through to the
  initiation of the authorisation flow; only what the inner handlers do not catch (the
  entity lookup) reaches the outer handler.
\<close>

definition check_oauth_connection ::
  "client option \<Rightarrow> string \<Rightarrow> string \<Rightarrow> (bool \<times> string option \<times> string option) io" where
  "check_oauth_connection cl app_name entity_id =
     io_try
       (io_bind
          (case cl of
             None \<Rightarrow> io_raise (attribute_error ''NoneType'' ''get_entity'')
           | Some c \<Rightarrow> io_call (GetEntity entity_id) (get_entity c entity_id))
          (\<lambda>entity.
             io_bind
               (io_try
                  (io_bind (io_call (GetConnection app_name) (get_connection entity app_name))
                     (\<lambda>connection. io_return (connection_active connection)))
                  (\<lambda>e. io_return False))
               (\<lambda>active.
                  if active then io_return (True, None, None)
                  else
                    io_try
                      (io_bind
                         (io_call
                            (InitiateConnection app_name ''https://app.composio.dev/connections'')
                            (initiate_connection entity app_name
                               ''https://app.composio.dev/connections''))
                         (\<lambda>connection_request.
                            if truthy_str (redirectUrl connection_request) then
                              io_return (False, redirectUrl connection_request, None)
                            else io_return (False, Some (dashboard_url app_name), None)))
                      (\<lambda>e. io_return (False, Some (dashboard_url app_name), None)))))
       (\<lambda>e. io_return (False, None, Some (''Failed to check OAuth connection: '' @ str_exn e)))"

text \<open>An \<^verbatim>\<open>Optional[str]\<close> inside an f-string, and as a dict value.\<close>

fun format_opt :: "string option \<Rightarrow> string" where
  "format_opt None = ''None''"
| "format_opt (Some s) = s"

fun pyval_of_opt :: "string option \<Rightarrow> pyval" where
  "pyval_of_opt None = PNone"
| "pyval_of_opt (Some s) = PStr s"

text \<open>The envelope of \<^verbatim>\<open>_ensure_oauth_connection\<close> for an account that is not connected.\<close>

definition oauth_required_envelope :: "string \<Rightarrow> string option \<Rightarrow> envelope" where
  "oauth_required_envelope app_name oauth_url =
     [(''error'', PStr (app_name @ '' OAuth connection required. Please authorize access.'')),
      (''oauth_required'', PBool True),
      (''oauth_url'', pyval_of_opt oauth_url),
      (''message'',
       PStr (''Please visit the following URL to connect your '' @ app_name @
             '' account: '' @ format_opt oauth_url))]"

text \<open>
  The result is \<^verbatim>\<open>(client, error_response)\<close>. The first event records that the gate
  was entered.
\<close>

definition ensure_oauth_connection ::
  "world \<Rightarrow> string \<Rightarrow> (client option \<times> envelope option) io" where
  "ensure_oauth_connection w app_name =
     io_bind (io_call (EnsureOAuthConnection app_name) (Inr ()))
       (\<lambda>_.
     io_bind (get_composio_client w)
       (\<lambda>(cl, error).
          if truthy_str error then io_return (None, Some [(''error'', pyval_of_opt error)])
          else
            io_bind (check_oauth_connection cl app_name ''default'')
              (\<lambda>(is_connected, oauth_url, check_error).
                 if truthy_str check_error then
                   io_return (None, Some [(''error'', pyval_of_opt check_error)])
                 else if \<not> is_connected then
                   io_return (None, Some (oauth_required_envelope app_name oauth_url))
                 else io_return (cl, None))))"

section \<open>The tool handlers\<close>

text \<open>
  Every handler but \<^verbatim>\<open>linkedin_get_profile\<close> repeats three fragments, given once here.

  The first is
  \<^verbatim>\<open>client, error_response = _ensure_oauth_connection(credentials, APP)\<close> followed by
  \<^verbatim>\<open>if error_response: return error_response\<close>, after which the handler's \<^verbatim>\<open>try\<close>
  statement runs with \<^verbatim>\<open>client\<close>.
\<close>

definition after_gate ::
  "(client option \<times> envelope option) io \<Rightarrow> (client option \<Rightarrow> envelope io) \<Rightarrow> envelope io" where
  "after_gate gate body =
     io_bind gate
       (\<lambda>(cl, error_response).
          case error_response of
            None \<Rightarrow> body cl
          | Some env \<Rightarrow> if env \<noteq> [] then io_return env else body cl)"

text \<open>
  The second is the call
  \<^verbatim>\<open>from composio import Action; result = client.execute_action(action=Action.NAME, params=params)\<close>:
  the import, then the attribute \<^verbatim>\<open>client.execute_action\<close>, then the argument
  \<^verbatim>\<open>Action.NAME\<close>, then the call itself.
\<close>

fun raise_if :: "exn option \<Rightarrow> unit io" where
  "raise_if None = io_return ()"
| "raise_if (Some e) = io_raise e"

definition execute_action_step ::
  "world \<Rightarrow> client option \<Rightarrow> action \<Rightarrow> (string \<times> pyval) list \<Rightarrow> pyval io" where
  "execute_action_step w cl a params =
     io_bind (raise_if (import_Action w))
       (\<lambda>_.
          case cl of
            None \<Rightarrow> io_raise (attribute_error ''NoneType'' ''execute_action'')
          | Some c \<Rightarrow>
              io_bind (raise_if (Action_member w a))
                (\<lambda>_. io_call (ExecuteAction a params) (execute_action c a params)))"

text \<open>
  The third is the handler of the \<^verbatim>\<open>try\<close> statement,
  \<^verbatim>\<open>except Exception as e: return {"error": f"<prefix>{str(e)}"}\<close>.
\<close>

definition tool_try :: "string \<Rightarrow> envelope io \<Rightarrow> envelope io" where
  "tool_try prefix body = io_try body (\<lambda>e. io_return [(''error'', PStr (prefix @ str_exn e))])"

text \<open>\<^verbatim>\<open>result.get("data", {}).get(key, default)\<close>\<close>

definition data_get :: "pyval \<Rightarrow> string \<Rightarrow> pyval \<Rightarrow> exn + pyval" where
  "data_get result k d = ex_bind (py_get result ''data'' (PDict [])) (\<lambda>data. py_get data k d)"

text \<open>The \<^verbatim>\<open>else\<close> branch \<^verbatim>\<open>return {"error": result.get("error", fallback)}\<close>.\<close>

definition remote_failure :: "pyval \<Rightarrow> string \<Rightarrow> exn + envelope" where
  "remote_failure result fallback =
     ex_bind (py_get result ''error'' (PStr fallback)) (\<lambda>err. Inr [(''error'', err)])"

subsection \<open>\<^verbatim>\<open>gmail_tools.py\<close>\<close>

definition optional_param :: "string \<Rightarrow> string \<Rightarrow> (string \<times> pyval) list" where
  "optional_param k v = (if v \<noteq> [] then [(k, PStr v)] else [])"

definition send_email_result :: "pyval \<Rightarrow> exn + envelope" where
  "send_email_result result =
     ex_bind (py_get result ''successful'' PNone)
       (\<lambda>successful.
          if py_truthy successful then
            ex_bind (data_get result ''id'' PNone)
              (\<lambda>message_id.
                 ex_bind (data_get result ''threadId'' PNone)
                   (\<lambda>thread_id.
                      Inr [(''success'', PBool True),
                           (''message_id'', message_id),
                           (''thread_id'', thread_id),
                           (''message'', PStr ''Email sent successfully'')]))
          else remote_failure result ''Failed to send email'')"

definition gmail_send_email ::
  "world \<Rightarrow> string \<Rightarrow> string \<Rightarrow> string \<Rightarrow> string \<Rightarrow> string \<Rightarrow> envelope io" where
  "gmail_send_email w to subject body cc bcc =
     (if to = [] then io_return [(''error'', PStr ''Recipient email address is required'')]
      else if subject = [] then io_return [(''error'', PStr ''Email subject is required'')]
      else if body = [] then io_return [(''error'', PStr ''Email body is required'')]
      else
        after_gate (ensure_oauth_connection w GMAIL_APP_NAME)
          (\<lambda>cl.
             tool_try ''Gmail send failed: ''
               (io_bind
                  (execute_action_step w cl GMAIL_SEND_EMAIL
                     ([(''to'', PStr to), (''subject'', PStr subject), (''body'', PStr body)] @
                      optional_param ''cc'' cc @ optional_param ''bcc'' bcc))
                  (\<lambda>result. io_lift (send_email_result result)))))"

definition read_email_item :: "pyval \<Rightarrow> exn + pyval" where
  "read_email_item msg =
     ex_bind (py_get msg ''id'' PNone) (\<lambda>v_id.
     ex_bind (py_get msg ''threadId'' PNone) (\<lambda>v_thread.
     ex_bind (py_get msg ''from'' PNone) (\<lambda>v_from.
     ex_bind (py_get msg ''to'' PNone) (\<lambda>v_to.
     ex_bind (py_get msg ''subject'' PNone) (\<lambda>v_subject.
     ex_bind (py_get msg ''snippet'' PNone) (\<lambda>v_snippet.
     ex_bind (py_get msg ''date'' PNone) (\<lambda>v_date.
     ex_bind (py_get msg ''isUnread'' (PBool False)) (\<lambda>v_unread.
       Inr (PDict [(''id'', v_id), (''thread_id'', v_thread), (''from'', v_from),
                   (''to'', v_to), (''subject'', v_subject), (''snippet'', v_snippet),
                   (''date'', v_date), (''is_unread'', v_unread)])))))))))"

definition read_emails_result :: "int \<Rightarrow> pyval \<Rightarrow> exn + envelope" where
  "read_emails_result max_results result =
     ex_bind (py_get result ''successful'' PNone)
       (\<lambda>successful.
          if py_truthy successful then
            ex_bind (data_get result ''messages'' (PList []))
              (\<lambda>messages.
                 ex_bind (ex_bind (py_slice_items messages max_results) (ex_map read_email_item))
                   (\<lambda>emails.
                      ex_bind (py_len messages)
                        (\<lambda>total.
                           Inr [(''success'', PBool True),
                                (''emails'', PList emails),
                                (''total'', PInt total)])))
          else remote_failure result ''Failed to fetch emails'')"

definition gmail_read_emails :: "world \<Rightarrow> int \<Rightarrow> string \<Rightarrow> bool \<Rightarrow> envelope io" where
  "gmail_read_emails w max_results0 label unread_only =
     (let max_results = max 1 (min 100 max_results0) in
        after_gate (ensure_oauth_connection w GMAIL_APP_NAME)
          (\<lambda>cl.
             tool_try ''Gmail read failed: ''
               (io_bind
                  (execute_action_step w cl GMAIL_FETCH_EMAILS
                     ([(''max_results'', PInt max_results), (''label_ids'', PList [PStr label])] @
                      (if unread_only then [(''query'', PStr ''is:unread'')] else [])))
                  (\<lambda>result. io_lift (read_emails_result max_results result)))))"

definition search_email_item :: "pyval \<Rightarrow> exn + pyval" where
  "search_email_item msg =
     ex_bind (py_get msg ''id'' PNone) (\<lambda>v_id.
     ex_bind (py_get msg ''threadId'' PNone) (\<lambda>v_thread.
     ex_bind (py_get msg ''from'' PNone) (\<lambda>v_from.
     ex_bind (py_get msg ''to'' PNone) (\<lambda>v_to.
     ex_bind (py_get msg ''subject'' PNone) (\<lambda>v_subject.
     ex_bind (py_get msg ''snippet'' PNone) (\<lambda>v_snippet.
     ex_bind (py_get msg ''date'' PNone) (\<lambda>v_date.
       Inr (PDict [(''id'', v_id), (''thread_id'', v_thread), (''from'', v_from),
                   (''to'', v_to), (''subject'', v_subject), (''snippet'', v_snippet),
                   (''date'', v_date)]))))))))"

definition search_emails_result :: "string \<Rightarrow> int \<Rightarrow> pyval \<Rightarrow> exn + envelope" where
  "search_emails_result query max_results result =
     ex_bind (py_get result ''successful'' PNone)
       (\<lambda>successful.
          if py_truthy successful then
            ex_bind (data_get result ''messages'' (PList []))
              (\<lambda>messages.
                 ex_bind (ex_bind (py_slice_items messages max_results) (ex_map search_email_item))
                   (\<lambda>results.
                      ex_bind (py_len messages)
                        (\<lambda>total.
                           Inr [(''success'', PBool True),
                                (''results'', PList results),
                                (''total'', PInt total),
                                (''query'', PStr query)])))
          else remote_failure result ''Failed to search emails'')"

definition gmail_search_emails :: "world \<Rightarrow> string \<Rightarrow> int \<Rightarrow> envelope io" where
  "gmail_search_emails w query max_results0 =
     (if query = [] then io_return [(''error'', PStr ''Search query is required'')]
      else
        let max_results = max 1 (min 100 max_results0) in
          after_gate (ensure_oauth_connection w GMAIL_APP_NAME)
            (\<lambda>cl.
               tool_try ''Gmail search failed: ''
                 (io_bind
                    (execute_action_step w cl GMAIL_FETCH_EMAILS
                       [(''query'', PStr query), (''max_results'', PInt max_results)])
                    (\<lambda>result. io_lift (search_emails_result query max_results result)))))"

definition create_draft_result :: "pyval \<Rightarrow> exn + envelope" where
  "create_draft_result result =
     ex_bind (py_get result ''successful'' PNone)
       (\<lambda>successful.
          if py_truthy successful then
            ex_bind (data_get result ''id'' PNone)
              (\<lambda>draft_id.
                 Inr [(''success'', PBool True),
                      (''draft_id'', draft_id),
                      (''message'', PStr ''Draft created successfully'')])
          else remote_failure result ''Failed to create draft'')"

text \<open>\<^verbatim>\<open>body or ""\<close> of a string is the string itself.\<close>

definition gmail_create_draft ::
  "world \<Rightarrow> string \<Rightarrow> string \<Rightarrow> string \<Rightarrow> string \<Rightarrow> string \<Rightarrow> envelope io" where
  "gmail_create_draft w to subject body cc bcc =
     (if to = [] then io_return [(''error'', PStr ''Recipient email address is required'')]
      else if subject = [] then io_return [(''error'', PStr ''Email subject is required'')]
      else
        after_gate (ensure_oauth_connection w GMAIL_APP_NAME)
          (\<lambda>cl.
             tool_try ''Gmail draft creation failed: ''
               (io_bind
                  (execute_action_step w cl GMAIL_CREATE_EMAIL_DRAFT
                     ([(''to'', PStr to), (''subject'', PStr subject),
                       (''body'', PStr (if body \<noteq> [] then body else []))] @
                      optional_param ''cc'' cc @ optional_param ''bcc'' bcc))
                  (\<lambda>result. io_lift (create_draft_result result)))))"

subsection \<open>\<^verbatim>\<open>linkedin_tools.py\<close>\<close>

definition create_post_result :: "pyval \<Rightarrow> exn + envelope" where
  "create_post_result result =
     ex_bind (py_get result ''successful'' PNone)
       (\<lambda>successful.
          if py_truthy successful then
            ex_bind (data_get result ''id'' PNone)
              (\<lambda>post_id.
                 Inr [(''success'', PBool True),
                      (''post_id'', post_id),
                      (''message'', PStr ''Post created successfully'')])
          else remote_failure result ''Failed to create post'')"

definition linkedin_create_post :: "world \<Rightarrow> string \<Rightarrow> string \<Rightarrow> envelope io" where
  "linkedin_create_post w text visibility0 =
     (if text = [] \<or> length text > 3000 then
        io_return [(''error'', PStr ''Post text must be 1-3000 characters'')]
      else
        let visibility =
              (if visibility0 \<notin> set [''PUBLIC'', ''CONNECTIONS'', ''LOGGED_IN''] then ''PUBLIC''
               else visibility0)
        in
          after_gate (ensure_oauth_connection w LINKEDIN_APP_NAME)
            (\<lambda>cl.
               tool_try ''LinkedIn post failed: ''
                 (io_bind
                    (execute_action_step w cl LINKEDIN_CREATE_LINKED_IN_POST
                       [(''text'', PStr text), (''visibility'', PStr visibility)])
                    (\<lambda>result. io_lift (create_post_result result)))))"

definition sample_profile :: envelope where
  "sample_profile =
     [(''success'', PBool True),
      (''profile'',
       PDict
         [(''id'', PStr ''mock-profile-123''),
          (''first_name'', PStr ''Richard''),
          (''last_name'', PStr ''Tang''),
          (''full_name'', PStr ''Richard Tang''),
          (''headline'', PStr ''CEO & Founder at Aden | Building AI-powered solutions''),
          (''summary'',
           PStr (''Experienced tech entrepreneur focused on AI and automation. '' @
                 ''Previously founded multiple startups in the B2B space.'')),
          (''profile_url'', PStr ''https://www.linkedin.com/in/richardtang''),
          (''location'', PStr ''San Francisco, CA''),
          (''current_company'', PStr ''Aden'')])]"

definition linkedin_get_profile :: "world \<Rightarrow> string \<Rightarrow> envelope io" where
  "linkedin_get_profile w profile_id = io_return sample_profile"

text \<open>
  \<^verbatim>\<open>isinstance(data, dict) and "elements" in data\<close>, then \<^verbatim>\<open>isinstance(data, list)\<close>,
  then \<^verbatim>\<open>[data] if data else []\<close>.
\<close>

fun company_orgs :: "pyval \<Rightarrow> pyval" where
  "company_orgs (PDict kvs) =
     (case map_of kvs ''elements'' of
        Some v \<Rightarrow> v
      | None \<Rightarrow> if py_truthy (PDict kvs) then PList [PDict kvs] else PList [])"
| "company_orgs (PList xs) = PList xs"
| "company_orgs data = (if py_truthy data then PList [data] else PList [])"

definition get_company_result :: "pyval \<Rightarrow> exn + envelope" where
  "get_company_result result =
     ex_bind (py_get result ''successful'' PNone)
       (\<lambda>successful.
          if py_truthy successful then
            ex_bind (py_get result ''data'' (PDict []))
              (\<lambda>data.
                 let orgs = company_orgs data in
                   ex_bind (py_len orgs)
                     (\<lambda>count.
                        Inr [(''success'', PBool True),
                             (''organizations'', orgs),
                             (''count'', PInt count)]))
          else
            ex_bind (py_get result ''error'' (PStr ''Failed to get company info''))
              (\<lambda>error_msg.
                 if contains ''403'' (py_str error_msg) \<or> contains ''Forbidden'' (py_str error_msg)
                 then
                   Inr [(''error'',
                         PStr (''Permission denied. You may not have admin access to any '' @
                               ''LinkedIn company pages.'')),
                        (''suggestion'',
                         PStr (''Ensure you have ADMINISTRATOR or DIRECT_SPONSORED_CONTENT_POSTER '' @
                               ''role on a company page.''))]
                 else Inr [(''error'', error_msg)]))"

definition linkedin_get_company :: "world \<Rightarrow> string \<Rightarrow> envelope io" where
  "linkedin_get_company w role0 =
     (let role =
            (if role0 \<notin> set [''ADMINISTRATOR'', ''DIRECT_SPONSORED_CONTENT_POSTER'']
             then ''ADMINISTRATOR'' else role0)
      in
        after_gate (ensure_oauth_connection w LINKEDIN_APP_NAME)
          (\<lambda>cl.
             tool_try ''LinkedIn company fetch failed: ''
               (io_bind
                  (execute_action_step w cl LINKEDIN_GET_COMPANY_INFO
                     [(''role'', PStr role), (''state'', PStr ''APPROVED''), (''count'', PInt 100)])
                  (\<lambda>result. io_lift (get_company_result result)))))"

definition search_people_item :: "pyval \<Rightarrow> exn + pyval" where
  "search_people_item p =
     ex_bind (py_get p ''name'' PNone) (\<lambda>v_name.
     ex_bind (py_get p ''headline'' PNone) (\<lambda>v_headline.
     ex_bind (py_get p ''profileUrl'' PNone) (\<lambda>v_url.
       Inr (PDict [(''name'', v_name), (''headline'', v_headline), (''profile_url'', v_url)]))))"

definition search_people_result :: "int \<Rightarrow> pyval \<Rightarrow> exn + envelope" where
  "search_people_result limit result =
     ex_bind (py_get result ''successful'' PNone)
       (\<lambda>successful.
          if py_truthy successful then
            ex_bind (data_get result ''elements'' (PList []))
              (\<lambda>people.
                 ex_bind (ex_bind (py_slice_items people limit) (ex_map search_people_item))
                   (\<lambda>results.
                      ex_bind (py_len people)
                        (\<lambda>total.
                           Inr [(''success'', PBool True),
                                (''results'', PList results),
                                (''total'', PInt total)])))
          else remote_failure result ''Failed to search people'')"

definition linkedin_search_people :: "world \<Rightarrow> string \<Rightarrow> int \<Rightarrow> envelope io" where
  "linkedin_search_people w keywords limit0 =
     (if keywords = [] then io_return [(''error'', PStr ''Keywords are required'')]
      else
        let limit = max 1 (min 50 limit0) in
          after_gate (ensure_oauth_connection w LINKEDIN_APP_NAME)
            (\<lambda>cl.
               tool_try ''LinkedIn search failed: ''
                 (io_bind
                    (execute_action_step w cl LINKEDIN_SEARCH_PEOPLE
                       [(''keywords'', PStr keywords), (''limit'', PInt limit)])
                    (\<lambda>result. io_lift (search_people_result limit result)))))"

definition send_message_result :: "pyval \<Rightarrow> exn + envelope" where
  "send_message_result result =
     ex_bind (py_get result ''successful'' PNone)
       (\<lambda>successful.
          if py_truthy successful then
            ex_bind (data_get result ''id'' PNone)
              (\<lambda>message_id.
                 Inr [(''success'', PBool True),
                      (''message_id'', message_id),
                      (''message'', PStr ''Message sent successfully'')])
          else remote_failure result ''Failed to send message'')"

definition linkedin_send_message :: "world \<Rightarrow> string \<Rightarrow> string \<Rightarrow> envelope io" where
  "linkedin_send_message w recipient_id message =
     (if recipient_id = [] then io_return [(''error'', PStr ''Recipient ID is required'')]
      else if message = [] \<or> length message > 8000 then
        io_return [(''error'', PStr ''Message must be 1-8000 characters'')]
      else
        after_gate (ensure_oauth_connection w LINKEDIN_APP_NAME)
          (\<lambda>cl.
             tool_try ''LinkedIn message failed: ''
               (io_bind
                  (execute_action_step w cl LINKEDIN_SEND_MESSAGE
                     [(''recipient_id'', PStr recipient_id), (''message'', PStr message)])
                  (\<lambda>result. io_lift (send_message_result result)))))"

subsection \<open>The registered tools\<close>

text \<open>
  \<^verbatim>\<open>register_tools\<close> registers the nine handlers under their names; the hosting runtime
  routes an invocation, with every argument given (defaults filled in), to its handler.
\<close>

datatype tool_call =
    Gmail_send_email string string string string string
  | Gmail_read_emails int string bool
  | Gmail_search_emails string int
  | Gmail_create_draft string string string string string
  | Linkedin_create_post string string
  | Linkedin_get_profile string
  | Linkedin_get_company string
  | Linkedin_search_people string int
  | Linkedin_send_message string string

fun call_tool :: "world \<Rightarrow> tool_call \<Rightarrow> envelope io" where
  "call_tool w (Gmail_send_email to subject body cc bcc) = gmail_send_email w to subject body cc bcc"
| "call_tool w (Gmail_read_emails max_results label unread_only) =
     gmail_read_emails w max_results label unread_only"
| "call_tool w (Gmail_search_emails query max_results) = gmail_search_emails w query max_results"
| "call_tool w (Gmail_create_draft to subject body cc bcc) =
     gmail_create_draft w to subject body cc bcc"
| "call_tool w (Linkedin_create_post text visibility) = linkedin_create_post w text visibility"
| "call_tool w (Linkedin_get_profile profile_id) = linkedin_get_profile w profile_id"
| "call_tool w (Linkedin_get_company role) = linkedin_get_company w role"
| "call_tool w (Linkedin_search_people keywords limit) = linkedin_search_people w keywords limit"
| "call_tool w (Linkedin_send_message recipient_id message) =
     linkedin_send_message w recipient_id message"

text \<open>The application whose connection a tool needs; \<^verbatim>\<open>linkedin_get_profile\<close> needs none.\<close>

fun tool_app :: "tool_call \<Rightarrow> string option" where
  "tool_app (Gmail_send_email _ _ _ _ _) = Some GMAIL_APP_NAME"
| "tool_app (Gmail_read_emails _ _ _) = Some GMAIL_APP_NAME"
| "tool_app (Gmail_search_emails _ _) = Some GMAIL_APP_NAME"
| "tool_app (Gmail_create_draft _ _ _ _ _) = Some GMAIL_APP_NAME"
| "tool_app (Linkedin_get_profile _) = None"
| "tool_app _ = Some LINKEDIN_APP_NAME"

section \<open>Derived notions\<close>

text \<open>
  The URL that \<^verbatim>\<open>_check_oauth_connection\<close> hands out when it finds no active connection:
  the redirect URL of the initiated flow if there is a non-empty one, the dashboard link
  otherwise.
\<close>

definition offered_url :: "entity \<Rightarrow> string \<Rightarrow> string" where
  "offered_url ent app =
     (case initiate_connection ent app ''https://app.composio.dev/connections'' of
        Inl e \<Rightarrow> dashboard_url app
      | Inr rq \<Rightarrow>
          (case redirectUrl rq of
             None \<Rightarrow> dashboard_url app
           | Some u \<Rightarrow> if u = [] then dashboard_url app else u))"

text \<open>
  What a handler does once its own validation has passed: the gate, then the guarded
  invocation of one remote action.
\<close>

definition gated_action ::
  "world \<Rightarrow> string \<Rightarrow> string \<Rightarrow> action \<Rightarrow> (string \<times> pyval) list \<Rightarrow>
   (pyval \<Rightarrow> exn + envelope) \<Rightarrow> envelope io" where
  "gated_action w app prefix a params reshape =
     after_gate (ensure_oauth_connection w app)
       (\<lambda>cl.
          tool_try prefix
            (io_bind (execute_action_step w cl a params) (\<lambda>result. io_lift (reshape result))))"

text \<open>The envelope of a handler's own validation, if the arguments fail it.\<close>

fun validation_error :: "tool_call \<Rightarrow> envelope option" where
  "validation_error (Gmail_send_email to subject body cc bcc) =
     (if to = [] then Some [(''error'', PStr ''Recipient email address is required'')]
      else if subject = [] then Some [(''error'', PStr ''Email subject is required'')]
      else if body = [] then Some [(''error'', PStr ''Email body is required'')]
      else None)"
| "validation_error (Gmail_read_emails max_results label unread_only) = None"
| "validation_error (Gmail_search_emails query max_results) =
     (if query = [] then Some [(''error'', PStr ''Search query is required'')] else None)"
| "validation_error (Gmail_create_draft to subject body cc bcc) =
     (if to = [] then Some [(''error'', PStr ''Recipient email address is required'')]
      else if subject = [] then Some [(''error'', PStr ''Email subject is required'')]
      else None)"
| "validation_error (Linkedin_create_post text visibility) =
     (if text = [] \<or> length text > 3000
      then Some [(''error'', PStr ''Post text must be 1-3000 characters'')] else None)"
| "validation_error (Linkedin_get_profile profile_id) = None"
| "validation_error (Linkedin_get_company role) = None"
| "validation_error (Linkedin_search_people keywords limit) =
     (if keywords = [] then Some [(''error'', PStr ''Keywords are required'')] else None)"
| "validation_error (Linkedin_send_message recipient_id message) =
     (if recipient_id = [] then Some [(''error'', PStr ''Recipient ID is required'')]
      else if message = [] \<or> length message > 8000
      then Some [(''error'', PStr ''Message must be 1-8000 characters'')] else None)"

section \<open>Sample collaborators\<close>

text \<open>
  Collaborators with fixed answers, on which the theorems below are instantiated: an
  entity by what its two calls give, a client by its entity lookup and the result of
  every action, a world by what the credential manager gives for the key and what the
  client constructor gives.
\<close>

definition demo_entity :: "exn + connection option \<Rightarrow> exn + connection_request \<Rightarrow> entity" where
  "demo_entity conn req =
     \<lparr>get_connection = (\<lambda>app. conn), initiate_connection = (\<lambda>app url. req)\<rparr>"

definition demo_client :: "exn + entity \<Rightarrow> exn + pyval \<Rightarrow> client" where
  "demo_client ent res = \<lparr>get_entity = (\<lambda>eid. ent), execute_action = (\<lambda>a params. res)\<rparr>"

definition demo_world :: "exn + string option \<Rightarrow> exn + client \<Rightarrow> world" where
  "demo_world key cl =
     \<lparr>sdk_installed = True,
      credentials = Some (\<lambda>name. key),
      getenv = (\<lambda>name. None),
      ComposioToolSet = (\<lambda>k. cl),
      import_Action = None,
      Action_member = (\<lambda>a. None)\<rparr>"

text \<open>A world with a key and an active connection, whose actions all give \<open>res\<close>.\<close>

definition connected_world :: "exn + pyval \<Rightarrow> world" where
  "connected_world res =
     demo_world (Inr (Some ''key''))
       (Inr (demo_client
          (Inr (demo_entity (Inr (Some \<lparr>status = Some ''ACTIVE''\<rparr>)) (Inl (Exn ''unused''))))
          res))"

text \<open>A world with a key and no connection; initiating the flow gives a redirect URL.\<close>

definition not_connected_world :: world where
  "not_connected_world =
     demo_world (Inr (Some ''key''))
       (Inr (demo_client
          (Inr (demo_entity (Inr None)
                  (Inr \<lparr>redirectUrl = Some ''https://connect.example/start''\<rparr>)))
          (Inl (Exn ''unused''))))"

text \<open>
  A world with a key whose connection query raises; initiating the flow gives a
  redirect URL.
\<close>

definition connection_query_raises_world :: world where
  "connection_query_raises_world =
     demo_world (Inr (Some ''key''))
       (Inr (demo_client
          (Inr (demo_entity (Inl (Exn ''connection lookup failed''))
                  (Inr \<lparr>redirectUrl = Some ''https://connect.example/start''\<rparr>)))
          (Inl (Exn ''unused''))))"

text \<open>A world with a key whose entity lookup raises.\<close>

definition check_failed_world :: world where
  "check_failed_world =
     demo_world (Inr (Some ''key''))
       (Inr (demo_client (Inl (Exn ''timeout'')) (Inl (Exn ''unused''))))"

text \<open>A world whose credential manager has no key.\<close>

definition no_credential_world :: world where
  "no_credential_world = demo_world (Inr None) (Inl (Exn ''unused''))"

text \<open>Two remote results: a sent message, and a listing of three messages.\<close>

definition sent_result :: "(string \<times> pyval) list" where
  "sent_result = [(''successful'', PBool True), (''data'', PDict [(''id'', PStr ''abc123'')])]"

definition three_messages_result :: pyval where
  "three_messages_result =
     PDict [(''successful'', PBool True),
            (''data'',
             PDict [(''messages'',
                     PList [PDict [(''id'', PStr ''m1'')],
                            PDict [(''id'', PStr ''m2'')],
                            PDict [(''id'', PStr ''m3'')]])])]"

section \<open>Basic facts\<close>

subsection \<open>Sequencing\<close>

lemma io_bind_return [simp]: "io_bind (io_return x) f = f x"
  by (simp add: io_bind_def io_return_def split: prod.splits)

lemma io_bind_pair_Inr [simp]: "io_bind (t, Inr x) f = (t @ fst (f x), snd (f x))"
  by (simp add: io_bind_def split: prod.splits)

lemma io_bind_pair_Inl [simp]: "io_bind (t, Inl e) f = (t, Inl e)"
  by (simp add: io_bind_def)

lemma io_try_pair_Inr [simp]: "io_try (t, Inr x) h = (t, Inr x)"
  by (simp add: io_try_def)

lemma io_try_pair_Inl [simp]: "io_try (t, Inl e) h = (t @ fst (h e), snd (h e))"
  by (simp add: io_try_def split: prod.splits)

subsection \<open>The connection check\<close>

lemma check_no_client:
  "check_oauth_connection None app eid =
     ([], Inr (False, None,
        Some (''Failed to check OAuth connection: '' @
              str_exn (attribute_error ''NoneType'' ''get_entity''))))"
  by (simp add: check_oauth_connection_def io_raise_def io_return_def)

lemma check_entity_raises:
  "get_entity c eid = Inl e \<Longrightarrow>
   check_oauth_connection (Some c) app eid =
     ([GetEntity eid], Inr (False, None, Some (''Failed to check OAuth connection: '' @ str_exn e)))"
  by (simp add: check_oauth_connection_def io_call_def io_return_def)

lemma check_active:
  "get_entity c eid = Inr ent \<Longrightarrow> get_connection ent app = Inr cn \<Longrightarrow> connection_active cn \<Longrightarrow>
   check_oauth_connection (Some c) app eid =
     ([GetEntity eid, GetConnection app], Inr (True, None, None))"
  by (simp add: check_oauth_connection_def io_call_def io_return_def)

lemma offered_url_nonempty: "offered_url ent app \<noteq> []"
  by (auto simp: offered_url_def dashboard_url_def split: sum.splits option.splits)

lemma check_inactive:
  assumes "get_entity c eid = Inr ent"
      and "\<not> (\<exists>cn. get_connection ent app = Inr cn \<and> connection_active cn)"
  shows "check_oauth_connection (Some c) app eid =
     ([GetEntity eid, GetConnection app,
       InitiateConnection app ''https://app.composio.dev/connections''],
      Inr (False, Some (offered_url ent app), None))"
proof (cases "get_connection ent app")
  case (Inl e)
  show ?thesis
    using assms(1) Inl
    by (cases "initiate_connection ent app ''https://app.composio.dev/connections''")
       (auto simp: check_oauth_connection_def io_call_def io_return_def offered_url_def
             split: option.splits)
next
  case (Inr cn)
  with assms(2) have "\<not> connection_active cn" by simp
  then show ?thesis
    using assms(1) Inr
    by (cases "initiate_connection ent app ''https://app.composio.dev/connections''")
       (auto simp: check_oauth_connection_def io_call_def io_return_def offered_url_def
             split: option.splits)
qed

text \<open>
  An exception of the connection query is swallowed by the inner handler: the check goes
  on to initiate the authorisation flow and reports \<^verbatim>\<open>not connected\<close>.
\<close>

lemma check_connection_query_raises:
  assumes "get_entity c eid = Inr ent" and "get_connection ent app = Inl e"
  shows "check_oauth_connection (Some c) app eid =
     ([GetEntity eid, GetConnection app,
       InitiateConnection app ''https://app.composio.dev/connections''],
      Inr (False, Some (offered_url ent app), None))"
  using check_inactive [OF assms(1), of app] assms(2) by simp

text \<open>The three outcomes of the check, and nothing else.\<close>

lemma check_outcome:
  obtains (failed) t msg where
      "check_oauth_connection cl app eid = (t, Inr (False, None, Some msg))" "msg \<noteq> []"
      "\<forall>ev\<in>set t. \<not> is_execute_action ev"
      "cl = None \<or> (\<exists>c e. cl = Some c \<and> get_entity c eid = Inl e)"
    | (not_connected) t u where
      "check_oauth_connection cl app eid = (t, Inr (False, Some u, None))" "u \<noteq> []"
      "\<forall>ev\<in>set t. \<not> is_execute_action ev"
      "InitiateConnection app ''https://app.composio.dev/connections'' \<in> set t"
    | (connected) t where
      "check_oauth_connection cl app eid = (t, Inr (True, None, None))"
      "\<forall>ev\<in>set t. \<not> is_execute_action ev"
proof (cases cl)
  case None
  then show ?thesis using failed [of "[]"] check_no_client [of app eid] by simp
next
  case (Some c)
  show ?thesis
  proof (cases "get_entity c eid")
    case (Inl e)
    then show ?thesis using failed [of "[GetEntity eid]"] check_entity_raises [of c eid e app] Some
      by simp
  next
    case (Inr ent)
    show ?thesis
    proof (cases "\<exists>cn. get_connection ent app = Inr cn \<and> connection_active cn")
      case True
      then obtain cn where "get_connection ent app = Inr cn" "connection_active cn" by blast
      then show ?thesis using connected check_active [OF Inr] Some by simp
    next
      case False
      then show ?thesis
        using not_connected check_inactive [OF Inr False] Some offered_url_nonempty [of ent app]
        by simp
    qed
  qed
qed

subsection \<open>Resolving the client\<close>

lemma client_outcome:
  obtains (raises) t e where
      "get_composio_client w = (t, Inl e)" "\<forall>ev\<in>set t. \<not> is_remote ev"
    | (no_client) t msg where
      "get_composio_client w = (t, Inr (None, Some msg))" "msg \<noteq> []"
      "\<forall>ev\<in>set t. \<not> is_remote ev"
    | (client) t c where
      "get_composio_client w = (t, Inr (Some c, None))" "\<forall>ev\<in>set t. \<not> is_remote ev"
proof (cases "sdk_installed w")
  case False
  then show ?thesis using no_client [of "[]"]
    by (simp add: get_composio_client_def io_return_def)
next
  case sdk: True
  show ?thesis
  proof (cases "credentials w")
    case None
    show ?thesis
    proof (cases "getenv w ''COMPOSIO_API_KEY''")
      case nokey: None
      then show ?thesis using sdk None no_client [of "[GetEnv ''COMPOSIO_API_KEY'']"]
        by (simp add: get_composio_client_def io_return_def io_call_def api_key_not_set_def)
    next
      case (Some k)
      show ?thesis
      proof (cases "k = []")
        case True
        then show ?thesis using sdk None Some no_client [of "[GetEnv ''COMPOSIO_API_KEY'']"]
          by (simp add: get_composio_client_def io_return_def io_call_def api_key_not_set_def)
      next
        case False
        then show ?thesis
          using sdk None Some raises [of "[GetEnv ''COMPOSIO_API_KEY'', NewClient k]"]
            client [of "[GetEnv ''COMPOSIO_API_KEY'', NewClient k]"]
          by (cases "ComposioToolSet w k")
             (simp_all add: get_composio_client_def io_return_def io_call_def)
      qed
    qed
  next
    case (Some cm)
    show ?thesis
    proof (cases "cm ''composio''")
      case (Inl e)
      then show ?thesis using sdk Some raises [of "[CredentialGet ''composio'']"]
        by (simp add: get_composio_client_def io_call_def)
    next
      case (Inr key)
      show ?thesis
      proof (cases key)
        case None
        then show ?thesis using sdk Some Inr no_client [of "[CredentialGet ''composio'']"]
          by (simp add: get_composio_client_def io_return_def io_call_def api_key_not_set_def)
      next
        case k: (Some k)
        show ?thesis
        proof (cases "k = []")
          case True
          then show ?thesis using sdk Some Inr k no_client [of "[CredentialGet ''composio'']"]
            by (simp add: get_composio_client_def io_return_def io_call_def api_key_not_set_def)
        next
          case False
          then show ?thesis
            using sdk Some Inr k raises [of "[CredentialGet ''composio'', NewClient k]"]
              client [of "[CredentialGet ''composio'', NewClient k]"]
            by (cases "ComposioToolSet w k")
               (simp_all add: get_composio_client_def io_return_def io_call_def)
        qed
      qed
    qed
  qed
qed


subsection \<open>The gate\<close>

lemma ensure_unfold:
  "ensure_oauth_connection w app =
     (case get_composio_client w of
        (t, Inl e) \<Rightarrow> (EnsureOAuthConnection app # t, Inl e)
      | (t, Inr (cl, error)) \<Rightarrow>
          if truthy_str error
          then (EnsureOAuthConnection app # t, Inr (None, Some [(''error'', pyval_of_opt error)]))
          else
            (case check_oauth_connection cl app ''default'' of
               (t', Inl e) \<Rightarrow> (EnsureOAuthConnection app # t @ t', Inl e)
             | (t', Inr (is_connected, oauth_url, check_error)) \<Rightarrow>
                 (EnsureOAuthConnection app # t @ t',
                  Inr (if truthy_str check_error
                       then (None, Some [(''error'', pyval_of_opt check_error)])
                       else if \<not> is_connected
                       then (None, Some (oauth_required_envelope app oauth_url))
                       else (cl, None)))))"
  by (simp add: ensure_oauth_connection_def io_call_def io_return_def
           split: prod.splits sum.splits)

lemma gate_outcome:
  obtains (raises) t e where
      "ensure_oauth_connection w app = (EnsureOAuthConnection app # t, Inl e)"
      "get_composio_client w = (t, Inl e)"
      "\<forall>ev\<in>set t. \<not> is_remote ev"
    | (no_client) t msg where
      "ensure_oauth_connection w app =
         (EnsureOAuthConnection app # t, Inr (None, Some [(''error'', PStr msg)]))"
      "get_composio_client w = (t, Inr (None, Some msg))"
      "\<forall>ev\<in>set t. \<not> is_remote ev"
    | (check_failed) t c t' msg where
      "ensure_oauth_connection w app =
         (EnsureOAuthConnection app # t @ t', Inr (None, Some [(''error'', PStr msg)]))"
      "get_composio_client w = (t, Inr (Some c, None))"
      "check_oauth_connection (Some c) app ''default'' = (t', Inr (False, None, Some msg))"
      "\<forall>ev\<in>set (t @ t'). \<not> is_execute_action ev"
    | (not_connected) t c t' u where
      "ensure_oauth_connection w app =
         (EnsureOAuthConnection app # t @ t', Inr (None, Some (oauth_required_envelope app (Some u))))"
      "get_composio_client w = (t, Inr (Some c, None))"
      "check_oauth_connection (Some c) app ''default'' = (t', Inr (False, Some u, None))"
      "u \<noteq> []"
      "\<forall>ev\<in>set (t @ t'). \<not> is_execute_action ev"
    | (connected) t c t' where
      "ensure_oauth_connection w app = (EnsureOAuthConnection app # t @ t', Inr (Some c, None))"
      "get_composio_client w = (t, Inr (Some c, None))"
      "check_oauth_connection (Some c) app ''default'' = (t', Inr (True, None, None))"
      "\<forall>ev\<in>set (t @ t'). \<not> is_execute_action ev"
proof (cases w rule: client_outcome)
  case (raises t e)
  then show ?thesis using that(1) [of t e] by (simp add: ensure_unfold)
next
  case (no_client t msg)
  then show ?thesis using that(2) [of t msg] by (simp add: ensure_unfold)
next
  case (client t c)
  have tr: "\<forall>ev\<in>set t. \<not> is_execute_action ev"
  proof
    fix ev assume "ev \<in> set t"
    with client(2) have "\<not> is_remote ev" by blast
    then show "\<not> is_execute_action ev" by (cases ev) simp_all
  qed
  show ?thesis
  proof (cases rule: check_outcome [of "Some c" app "''default''"])
    case (failed t' msg)
    then show ?thesis using client tr that(3) [of t t' msg c] by (simp add: ensure_unfold ball_Un)
  next
    case (not_connected t' u)
    then show ?thesis using client tr that(4) [of t t' u c] by (simp add: ensure_unfold ball_Un)
  next
    case (connected t')
    then show ?thesis using client tr that(5) [of t t' c] by (simp add: ensure_unfold ball_Un)
  qed
qed

subsection \<open>After the gate\<close>

lemma execute_action_step_unfold:
  "execute_action_step w cl a params =
     (case import_Action w of
        Some e \<Rightarrow> ([], Inl e)
      | None \<Rightarrow>
          (case cl of
             None \<Rightarrow> ([], Inl (attribute_error ''NoneType'' ''execute_action''))
           | Some c \<Rightarrow>
               (case Action_member w a of
                  Some e \<Rightarrow> ([], Inl e)
                | None \<Rightarrow> ([ExecuteAction a params], execute_action c a params))))"
  by (simp add: execute_action_step_def io_raise_def io_return_def io_call_def
           split: option.splits)

lemma execute_action_step_trace:
  "fst (execute_action_step w cl a params) = [] \<or>
   fst (execute_action_step w cl a params) = [ExecuteAction a params]"
  by (simp add: execute_action_step_unfold split: option.splits)

lemma invoke_unfold:
  "tool_try prefix (io_bind m (\<lambda>result. io_lift (reshape result))) =
     (fst m,
      Inr (case ex_bind (snd m) reshape of
             Inl e \<Rightarrow> [(''error'', PStr (prefix @ str_exn e))]
           | Inr env \<Rightarrow> env))"
  by (cases m; cases "snd m")
     (auto simp: tool_try_def io_lift_def io_return_def ex_bind_def split: sum.splits)

lemma gated_action_unfold:
  "gated_action w app prefix a params reshape =
     (case ensure_oauth_connection w app of
        (t, Inl e) \<Rightarrow> (t, Inl e)
      | (t, Inr (cl, Some env)) \<Rightarrow>
          if env \<noteq> [] then (t, Inr env)
          else (t @ fst (execute_action_step w cl a params),
                Inr (case ex_bind (snd (execute_action_step w cl a params)) reshape of
                       Inl e \<Rightarrow> [(''error'', PStr (prefix @ str_exn e))]
                     | Inr env \<Rightarrow> env))
      | (t, Inr (cl, None)) \<Rightarrow>
          (t @ fst (execute_action_step w cl a params),
           Inr (case ex_bind (snd (execute_action_step w cl a params)) reshape of
                  Inl e \<Rightarrow> [(''error'', PStr (prefix @ str_exn e))]
                | Inr env \<Rightarrow> env)))"
  by (simp add: gated_action_def after_gate_def invoke_unfold io_return_def
           split: prod.splits sum.splits option.splits)

lemma call_tool_disj:
  "(tool_app c = None \<and> call_tool w c = ([], Inr sample_profile)) \<or>
   (\<exists>app env. tool_app c = Some app \<and> validation_error c = Some env \<and>
       call_tool w c = ([], Inr env)) \<or>
   (\<exists>app prefix a params reshape. tool_app c = Some app \<and> validation_error c = None \<and>
       call_tool w c = gated_action w app prefix a params reshape)"
proof (cases c)
  case (Gmail_send_email to subject body cc bcc)
  then show ?thesis
    by (simp add: gmail_send_email_def gated_action_def io_return_def) blast
next
  case (Gmail_read_emails m label u)
  then show ?thesis
    by (simp add: gmail_read_emails_def gated_action_def Let_def) blast
next
  case (Gmail_search_emails q m)
  then show ?thesis
    by (simp add: gmail_search_emails_def gated_action_def io_return_def Let_def) blast
next
  case (Gmail_create_draft to subject body cc bcc)
  then show ?thesis
    by (simp add: gmail_create_draft_def gated_action_def io_return_def) blast
next
  case (Linkedin_create_post content v)
  then show ?thesis
    by (simp add: linkedin_create_post_def gated_action_def io_return_def Let_def) blast
next
  case (Linkedin_get_profile p)
  then show ?thesis
    by (simp add: linkedin_get_profile_def io_return_def)
next
  case (Linkedin_get_company r)
  then show ?thesis
    by (simp add: linkedin_get_company_def gated_action_def Let_def) blast
next
  case (Linkedin_search_people k l)
  then show ?thesis
    by (simp add: linkedin_search_people_def gated_action_def io_return_def Let_def) blast
next
  case (Linkedin_send_message r m)
  then show ?thesis
    by (simp add: linkedin_send_message_def gated_action_def io_return_def) blast
qed

lemma call_tool_forms:
  obtains (profile) "tool_app c = None" "call_tool w c = ([], Inr sample_profile)"
    | (invalid) app env where "tool_app c = Some app" "validation_error c = Some env"
        "call_tool w c = ([], Inr env)"
    | (gated) app prefix a params reshape where "tool_app c = Some app"
        "validation_error c = None"
        "call_tool w c = gated_action w app prefix a params reshape"
  using call_tool_disj [of c w] apply (elim disjE exE conjE) apply (erule (1) profile) apply (erule (2) invalid) apply (erule (2) gated) done

lemma oauth_required_envelope_nonempty: "oauth_required_envelope app url \<noteq> []"
  by (simp add: oauth_required_envelope_def)

lemma gated_outcome:
  obtains (raises) t e where
      "gated_action w app prefix a params reshape = (EnsureOAuthConnection app # t, Inl e)"
      "ensure_oauth_connection w app = (EnsureOAuthConnection app # t, Inl e)"
      "get_composio_client w = (t, Inl e)"
      "\<forall>ev\<in>set t. \<not> is_remote ev"
    | (no_client) t msg where
      "gated_action w app prefix a params reshape =
         (EnsureOAuthConnection app # t, Inr [(''error'', PStr msg)])"
      "ensure_oauth_connection w app =
         (EnsureOAuthConnection app # t, Inr (None, Some [(''error'', PStr msg)]))"
      "get_composio_client w = (t, Inr (None, Some msg))"
      "\<forall>ev\<in>set t. \<not> is_remote ev"
    | (check_failed) t c t' msg where
      "gated_action w app prefix a params reshape =
         (EnsureOAuthConnection app # t @ t', Inr [(''error'', PStr msg)])"
      "ensure_oauth_connection w app =
         (EnsureOAuthConnection app # t @ t', Inr (None, Some [(''error'', PStr msg)]))"
      "get_composio_client w = (t, Inr (Some c, None))"
      "check_oauth_connection (Some c) app ''default'' = (t', Inr (False, None, Some msg))"
      "\<forall>ev\<in>set (t @ t'). \<not> is_execute_action ev"
    | (not_connected) t c t' u where
      "gated_action w app prefix a params reshape =
         (EnsureOAuthConnection app # t @ t', Inr (oauth_required_envelope app (Some u)))"
      "ensure_oauth_connection w app =
         (EnsureOAuthConnection app # t @ t', Inr (None, Some (oauth_required_envelope app (Some u))))"
      "get_composio_client w = (t, Inr (Some c, None))"
      "check_oauth_connection (Some c) app ''default'' = (t', Inr (False, Some u, None))"
      "u \<noteq> []"
      "\<forall>ev\<in>set (t @ t'). \<not> is_execute_action ev"
    | (connected) t c t' where
      "gated_action w app prefix a params reshape =
         (EnsureOAuthConnection app # t @ t' @ fst (execute_action_step w (Some c) a params),
          Inr (case ex_bind (snd (execute_action_step w (Some c) a params)) reshape of
                 Inl e \<Rightarrow> [(''error'', PStr (prefix @ str_exn e))]
               | Inr env \<Rightarrow> env))"
      "ensure_oauth_connection w app = (EnsureOAuthConnection app # t @ t', Inr (Some c, None))"
      "get_composio_client w = (t, Inr (Some c, None))"
      "check_oauth_connection (Some c) app ''default'' = (t', Inr (True, None, None))"
      "\<forall>ev\<in>set (t @ t'). \<not> is_execute_action ev"
proof (cases rule: gate_outcome [of w app])
  case (raises t e)
  then show ?thesis using that(1) [of t e] by (simp add: gated_action_unfold)
next
  case (no_client t msg)
  then show ?thesis using that(2) [of t msg] by (simp add: gated_action_unfold)
next
  case (check_failed t c t' msg)
  then show ?thesis using that(3) [of t t' msg c] by (simp add: gated_action_unfold)
next
  case (not_connected t c t' u)
  then show ?thesis using that(4) [of t t' u c]
    by (simp add: gated_action_unfold oauth_required_envelope_nonempty)
next
  case (connected t c t')
  then show ?thesis using that(5) [of t t' c] by (simp add: gated_action_unfold)
qed

subsection \<open>Validation and missing credentials\<close>

lemma validation_error_shape:
  "validation_error c = Some env \<Longrightarrow> \<exists>msg. env = [(''error'', PStr msg)]"
  by (cases c) (auto split: if_splits)

lemma no_credential_client:
  assumes "\<forall>cm. credentials w = Some cm \<longrightarrow> cm ''composio'' = Inr None"
      and "credentials w = None \<longrightarrow> getenv w ''COMPOSIO_API_KEY'' = None"
  shows "\<exists>t msg. get_composio_client w = (t, Inr (None, Some msg))"
  using assms
  by (cases "credentials w")
     (auto simp: get_composio_client_def io_return_def io_call_def)

subsection \<open>Traces of a gated action\<close>

lemma gated_trace_prefix:
  "\<exists>rest rest'. fst (gated_action w app prefix a params reshape) =
       fst (ensure_oauth_connection w app) @ rest \<and>
     fst (ensure_oauth_connection w app) = EnsureOAuthConnection app # rest'"
  by (cases rule: gated_outcome [of w app prefix a params reshape]) simp_all

lemma read_emails_gated:
  "gmail_read_emails w m label u =
     gated_action w GMAIL_APP_NAME ''Gmail read failed: '' GMAIL_FETCH_EMAILS
       ([(''max_results'', PInt (max 1 (min 100 m))), (''label_ids'', PList [PStr label])] @
        (if u then [(''query'', PStr ''is:unread'')] else []))
       (read_emails_result (max 1 (min 100 m)))"
  by (simp add: gmail_read_emails_def gated_action_def Let_def)

lemma gated_execute_events:
  assumes "ExecuteAction a' params' \<in> set (fst (gated_action w app prefix a params reshape))"
  shows "a' = a \<and> params' = params"
proof (cases rule: gated_outcome [of w app prefix a params reshape])
  case (raises t e)
  then have "\<forall>ev\<in>set t. \<not> is_execute_action ev"
    by (metis is_execute_action.elims(2) is_remote.simps(4))
  with raises assms show ?thesis by auto
next
  case (no_client t msg)
  then have "\<forall>ev\<in>set t. \<not> is_execute_action ev"
    by (metis is_execute_action.elims(2) is_remote.simps(4))
  with no_client assms show ?thesis by auto
next
  case (check_failed t c t' msg)
  with assms show ?thesis by (auto simp: ball_Un)
next
  case (not_connected t c t' u)
  with assms show ?thesis by (auto simp: ball_Un)
next
  case (connected t c t')
  with assms show ?thesis
    using execute_action_step_trace [of w "Some c" a params]
    by (auto simp: ball_Un)
qed

subsection \<open>Listings\<close>

lemma ex_map_length: "ex_map f xs = Inr ys \<Longrightarrow> length ys = length xs"
  by (induction xs arbitrary: ys) (auto simp: ex_bind_def split: sum.splits)

lemma slice_items_length:
  "py_slice_items v k = Inr items \<Longrightarrow> 0 \<le> k \<Longrightarrow>
   \<exists>total. py_len v = Inr total \<and> int (length items) = min total k"
  by (cases v) (auto simp: slice_upto_def)

lemma listing_success:
  assumes "ex_bind (py_get result ''successful'' PNone)
             (\<lambda>successful.
                if py_truthy successful then
                  ex_bind (data_get result ''messages'' (PList []))
                    (\<lambda>messages.
                       ex_bind (ex_bind (py_slice_items messages k) (ex_map item))
                         (\<lambda>emails. ex_bind (py_len messages) (\<lambda>total. Inr (build emails total))))
                else remote_failure result fallback) = Inr env"
      and "map_of env ''success'' = Some (PBool True)" and "0 \<le> k"
  shows "\<exists>messages emails total.
           data_get result ''messages'' (PList []) = Inr messages \<and>
           py_len messages = Inr total \<and> env = build emails total \<and>
           int (length emails) = min total k"
proof -
  obtain successful where s: "py_get result ''successful'' PNone = Inr successful"
    using assms(1) by (cases "py_get result ''successful'' PNone") (simp_all add: ex_bind_def)
  have truthy: "py_truthy successful"
  proof (rule ccontr)
    assume "\<not> py_truthy successful"
    with assms(1) s have "remote_failure result fallback = Inr env" by (simp add: ex_bind_def)
    then have "map_of env ''success'' = None"
      by (auto simp: remote_failure_def ex_bind_def split: sum.splits)
    with assms(2) show False by simp
  qed
  from assms(1) s truthy obtain messages where
    m: "data_get result ''messages'' (PList []) = Inr messages"
    by (cases "data_get result ''messages'' (PList [])") (simp_all add: ex_bind_def)
  from assms(1) s truthy m obtain items where i: "py_slice_items messages k = Inr items"
    by (cases "py_slice_items messages k") (simp_all add: ex_bind_def)
  from assms(1) s truthy m i obtain emails where e: "ex_map item items = Inr emails"
    by (cases "ex_map item items") (simp_all add: ex_bind_def)
  from slice_items_length [OF i assms(3)] obtain total where
    t: "py_len messages = Inr total" "int (length items) = min total k" by blast
  from assms(1) s truthy m i e t have "env = build emails total" by (simp add: ex_bind_def)
  with m t ex_map_length [OF e] show ?thesis by auto
qed

lemma gated_success:
  assumes "snd (gated_action w app prefix a params reshape) = Inr env"
      and "map_of env ''success'' = Some (PBool True)"
  shows "\<exists>t cl result. ensure_oauth_connection w app = (t, Inr (Some cl, None)) \<and>
           execute_action cl a params = Inr result \<and> reshape result = Inr env"
proof (cases rule: gated_outcome [of w app prefix a params reshape])
  case (raises t e)
  with assms show ?thesis by simp
next
  case (no_client t msg)
  with assms show ?thesis by auto
next
  case (check_failed t c t' msg)
  with assms show ?thesis by auto
next
  case (not_connected t c t' u)
  with assms show ?thesis by (auto simp: oauth_required_envelope_def)
next
  case (connected t c t')
  have "execute_action c a params = Inr result \<and> reshape result = Inr env"
    if "snd (execute_action_step w (Some c) a params) = Inr result" for result
    using that connected(1) assms
    by (auto simp: execute_action_step_unfold ex_bind_def split: option.splits sum.splits)
  moreover have "\<exists>result. snd (execute_action_step w (Some c) a params) = Inr result"
    using connected(1) assms
    by (cases "snd (execute_action_step w (Some c) a params)") (auto simp: ex_bind_def)
  ultimately show ?thesis using connected(2) by blast
qed

lemma search_emails_gated:
  "query \<noteq> [] \<Longrightarrow>
   gmail_search_emails w query m =
     gated_action w GMAIL_APP_NAME ''Gmail search failed: '' GMAIL_FETCH_EMAILS
       [(''query'', PStr query), (''max_results'', PInt (max 1 (min 100 m)))]
       (search_emails_result query (max 1 (min 100 m)))"
  by (simp add: gmail_search_emails_def gated_action_def Let_def)

subsection \<open>Unfolding the model on concrete collaborators\<close>

lemmas model_defs =
  gmail_send_email_def gmail_read_emails_def gmail_search_emails_def gmail_create_draft_def
  linkedin_create_post_def linkedin_get_profile_def linkedin_get_company_def
  linkedin_search_people_def linkedin_send_message_def
  after_gate_def tool_try_def execute_action_step_def ensure_oauth_connection_def
  check_oauth_connection_def get_composio_client_def oauth_required_envelope_def
  io_return_def io_raise_def io_call_def io_lift_def ex_bind_def data_get_def remote_failure_def
  demo_world_def demo_client_def demo_entity_def connected_world_def
  not_connected_world_def check_failed_world_def no_credential_world_def
  connection_query_raises_world_def
  GMAIL_APP_NAME_def LINKEDIN_APP_NAME_def optional_param_def connection_active_def
  api_key_not_set_def sent_result_def three_messages_result_def

section \<open>The claims\<close>

subsection \<open>C1: the envelopes of the connection gate\<close>

text \<open>
  C1, as stated, fails in its second clause. The connection-status query of the gate is
  \<^verbatim>\<open>entity.get_connection\<close>; when it raises, the inner \<^verbatim>\<open>except\<close> of
  \<^verbatim>\<open>_check_oauth_connection\<close> swallows the exception, the authorisation flow is
  initiated, and the handler returns an envelope with \<^verbatim>\<open>oauth_required\<close> set to true,
  not an error-only envelope.
\<close>

theorem connection_query_exception_asks_for_oauth:
  "get_connection
     (demo_entity (Inl (Exn ''connection lookup failed''))
        (Inr \<lparr>redirectUrl = Some ''https://connect.example/start''\<rparr>))
     GMAIL_APP_NAME = Inl (Exn ''connection lookup failed'') \<and>
   call_tool connection_query_raises_world (Gmail_read_emails 10 ''INBOX'' False) =
     ([EnsureOAuthConnection GMAIL_APP_NAME, CredentialGet ''composio'', NewClient ''key'',
       GetEntity ''default'', GetConnection GMAIL_APP_NAME,
       InitiateConnection GMAIL_APP_NAME ''https://app.composio.dev/connections''],
      Inr (oauth_required_envelope GMAIL_APP_NAME (Some ''https://connect.example/start''))) \<and>
   map_of (oauth_required_envelope GMAIL_APP_NAME (Some ''https://connect.example/start''))
     ''oauth_required'' = Some (PBool True) \<and>
   \<not> (\<exists>env. snd (call_tool connection_query_raises_world
                     (Gmail_read_emails 10 ''INBOX'' False)) = Inr env \<and>
              map_of env ''oauth_required'' = None)"
  by (simp add: model_defs)

text \<open>
  C1, amended. Take a handler that consults the connection gate (a tool other than
  \<^verbatim>\<open>linkedin_get_profile\<close> whose arguments pass its validation) in a world where the
  client is resolved. If the gate's check determines that the account is not connected
  (\<^verbatim>\<open>_check_oauth_connection\<close> gives \<^verbatim>\<open>(False, url, None)\<close>), the handler returns an
  envelope with \<^verbatim>\<open>oauth_required\<close> set to true and \<^verbatim>\<open>oauth_url\<close> a non-empty
  string; this is also what happens when the connection query \<^verbatim>\<open>entity.get_connection\<close>
  raises. If the check reports a failure (\<^verbatim>\<open>(False, url, msg)\<close>), the handler returns
  an envelope whose \<^verbatim>\<open>error\<close> is that message and which has no \<^verbatim>\<open>oauth_required\<close>
  key; the check reports a failure when the entity lookup \<^verbatim>\<open>client.get_entity\<close> raises,
  and the message then ends with the text of that exception.
\<close>

theorem gate_envelopes:
  assumes "tool_app c = Some app" and "validation_error c = None"
      and "snd (get_composio_client w) = Inr (Some cl, None)"
  shows
    "(\<forall>url. snd (check_oauth_connection (Some cl) app ''default'') = Inr (False, url, None) \<longrightarrow>
        (\<exists>env u. snd (call_tool w c) = Inr env \<and> url = Some u \<and> u \<noteq> [] \<and>
           map_of env ''oauth_required'' = Some (PBool True) \<and>
           map_of env ''oauth_url'' = Some (PStr u))) \<and>
     (\<forall>url msg.
        snd (check_oauth_connection (Some cl) app ''default'') = Inr (False, url, Some msg) \<longrightarrow>
        (\<exists>env. snd (call_tool w c) = Inr env \<and>
           map_of env ''error'' = Some (PStr msg) \<and>
           map_of env ''oauth_required'' = None)) \<and>
     (\<forall>e. get_entity cl ''default'' = Inl e \<longrightarrow>
        snd (check_oauth_connection (Some cl) app ''default'') =
          Inr (False, None, Some (''Failed to check OAuth connection: '' @ str_exn e)) \<and>
        (\<exists>env. snd (call_tool w c) = Inr env \<and>
           map_of env ''error'' =
             Some (PStr (''Failed to check OAuth connection: '' @ str_exn e)) \<and>
           map_of env ''oauth_required'' = None)) \<and>
     (\<forall>ent e. get_entity cl ''default'' = Inr ent \<and> get_connection ent app = Inl e \<longrightarrow>
        snd (check_oauth_connection (Some cl) app ''default'') =
          Inr (False, Some (offered_url ent app), None) \<and>
        (\<exists>env. snd (call_tool w c) = Inr env \<and> offered_url ent app \<noteq> [] \<and>
           map_of env ''oauth_required'' = Some (PBool True) \<and>
           map_of env ''oauth_url'' = Some (PStr (offered_url ent app))))"
proof -
  have both: "(\<forall>url. snd (check_oauth_connection (Some cl) app ''default'') = Inr (False, url, None) \<longrightarrow>
        (\<exists>env u. snd (call_tool w c) = Inr env \<and> url = Some u \<and> u \<noteq> [] \<and>
           map_of env ''oauth_required'' = Some (PBool True) \<and>
           map_of env ''oauth_url'' = Some (PStr u))) \<and>
     (\<forall>url msg.
        snd (check_oauth_connection (Some cl) app ''default'') = Inr (False, url, Some msg) \<longrightarrow>
        (\<exists>env. snd (call_tool w c) = Inr env \<and>
           map_of env ''error'' = Some (PStr msg) \<and>
           map_of env ''oauth_required'' = None))"
  proof (cases rule: call_tool_forms [of c w])
    case profile
    with assms(1) show ?thesis by simp
  next
    case (invalid app' env)
    with assms(2) show ?thesis by simp
  next
    case (gated app' prefix a params reshape)
    with assms(1) have app: "app' = app" by simp
    show ?thesis
      using assms(3)
      by (cases rule: gated_outcome [of w app prefix a params reshape])
         (simp_all add: gated(3) app oauth_required_envelope_def)
  qed
  note first = both [THEN conjunct1] and second = both [THEN conjunct2]
  have third: "\<forall>e. get_entity cl ''default'' = Inl e \<longrightarrow>
        snd (check_oauth_connection (Some cl) app ''default'') =
          Inr (False, None, Some (''Failed to check OAuth connection: '' @ str_exn e)) \<and>
        (\<exists>env. snd (call_tool w c) = Inr env \<and>
           map_of env ''error'' =
             Some (PStr (''Failed to check OAuth connection: '' @ str_exn e)) \<and>
           map_of env ''oauth_required'' = None)"
  proof (intro allI impI)
    fix e
    assume "get_entity cl ''default'' = Inl e"
    then have k: "snd (check_oauth_connection (Some cl) app ''default'') =
          Inr (False, None, Some (''Failed to check OAuth connection: '' @ str_exn e))"
      by (simp add: check_entity_raises)
    with second show "snd (check_oauth_connection (Some cl) app ''default'') =
          Inr (False, None, Some (''Failed to check OAuth connection: '' @ str_exn e)) \<and>
        (\<exists>env. snd (call_tool w c) = Inr env \<and>
           map_of env ''error'' =
             Some (PStr (''Failed to check OAuth connection: '' @ str_exn e)) \<and>
           map_of env ''oauth_required'' = None)"
      by blast
  qed
  have fourth: "\<forall>ent e. get_entity cl ''default'' = Inr ent \<and> get_connection ent app = Inl e \<longrightarrow>
        snd (check_oauth_connection (Some cl) app ''default'') =
          Inr (False, Some (offered_url ent app), None) \<and>
        (\<exists>env. snd (call_tool w c) = Inr env \<and> offered_url ent app \<noteq> [] \<and>
           map_of env ''oauth_required'' = Some (PBool True) \<and>
           map_of env ''oauth_url'' = Some (PStr (offered_url ent app)))"
  proof (intro allI impI)
    fix ent e
    assume h: "get_entity cl ''default'' = Inr ent \<and> get_connection ent app = Inl e"
    then have k: "snd (check_oauth_connection (Some cl) app ''default'') =
          Inr (False, Some (offered_url ent app), None)"
      by (simp add: check_connection_query_raises)
    with first have "\<exists>env u. snd (call_tool w c) = Inr env \<and>
           Some (offered_url ent app) = Some u \<and> u \<noteq> [] \<and>
           map_of env ''oauth_required'' = Some (PBool True) \<and>
           map_of env ''oauth_url'' = Some (PStr u)"
      by blast
    with k show "snd (check_oauth_connection (Some cl) app ''default'') =
          Inr (False, Some (offered_url ent app), None) \<and>
        (\<exists>env. snd (call_tool w c) = Inr env \<and> offered_url ent app \<noteq> [] \<and>
           map_of env ''oauth_required'' = Some (PBool True) \<and>
           map_of env ''oauth_url'' = Some (PStr (offered_url ent app)))"
      by auto
  qed
  from first second third fourth show ?thesis by blast
qed

theorem gate_envelopes_witness:
  "(\<exists>env. snd (call_tool not_connected_world (Gmail_read_emails 10 ''INBOX'' False)) = Inr env \<and>
      map_of env ''oauth_required'' = Some (PBool True) \<and>
      map_of env ''oauth_url'' = Some (PStr ''https://connect.example/start'')) \<and>
   (\<exists>env. snd (call_tool check_failed_world (Gmail_read_emails 10 ''INBOX'' False)) = Inr env \<and>
      map_of env ''error'' = Some (PStr ''Failed to check OAuth connection: timeout'') \<and>
      map_of env ''oauth_required'' = None) \<and>
   (\<exists>env. snd (call_tool connection_query_raises_world
                 (Gmail_read_emails 10 ''INBOX'' False)) = Inr env \<and>
      map_of env ''oauth_required'' = Some (PBool True) \<and>
      map_of env ''oauth_url'' = Some (PStr ''https://connect.example/start''))"
proof -
  let ?c = "Gmail_read_emails 10 ''INBOX'' False"
  let ?cl1 = "demo_client
          (Inr (demo_entity (Inr None)
                  (Inr \<lparr>redirectUrl = Some ''https://connect.example/start''\<rparr>)))
          (Inl (Exn ''unused''))"
  let ?cl2 = "demo_client (Inl (Exn ''timeout'')) (Inl (Exn ''unused''))"
  let ?ent3 = "demo_entity (Inl (Exn ''connection lookup failed''))
                  (Inr \<lparr>redirectUrl = Some ''https://connect.example/start''\<rparr>)"
  let ?cl3 = "demo_client (Inr ?ent3) (Inl (Exn ''unused''))"
  have app: "tool_app ?c = Some GMAIL_APP_NAME" and valid: "validation_error ?c = None"
    by simp_all
  have c1: "snd (get_composio_client not_connected_world) = Inr (Some ?cl1, None)"
    by (simp add: model_defs)
  have k1: "snd (check_oauth_connection (Some ?cl1) GMAIL_APP_NAME ''default'') =
      Inr (False, Some ''https://connect.example/start'', None)"
    by (simp add: model_defs)
  have c2: "snd (get_composio_client check_failed_world) = Inr (Some ?cl2, None)"
    by (simp add: model_defs)
  have k2: "get_entity ?cl2 ''default'' = Inl (Exn ''timeout'')"
    by (simp add: demo_client_def)
  have c3: "snd (get_composio_client connection_query_raises_world) = Inr (Some ?cl3, None)"
    by (simp add: model_defs)
  have k3: "get_entity ?cl3 ''default'' = Inr ?ent3 \<and>
            get_connection ?ent3 GMAIL_APP_NAME = Inl (Exn ''connection lookup failed'')"
    by (simp add: demo_client_def demo_entity_def)
  have u3: "offered_url ?ent3 GMAIL_APP_NAME = ''https://connect.example/start''"
    by (simp add: offered_url_def demo_entity_def)
  from gate_envelopes [OF app valid c1] k1
  have "\<exists>env u. snd (call_tool not_connected_world ?c) = Inr env \<and>
      Some ''https://connect.example/start'' = Some u \<and> u \<noteq> [] \<and>
      map_of env ''oauth_required'' = Some (PBool True) \<and>
      map_of env ''oauth_url'' = Some (PStr u)"
    by blast
  then have one: "\<exists>env. snd (call_tool not_connected_world ?c) = Inr env \<and>
      map_of env ''oauth_required'' = Some (PBool True) \<and>
      map_of env ''oauth_url'' = Some (PStr ''https://connect.example/start'')"
    by auto
  from gate_envelopes [OF app valid c2] k2
  have "\<exists>env. snd (call_tool check_failed_world ?c) = Inr env \<and>
      map_of env ''error'' =
        Some (PStr (''Failed to check OAuth connection: '' @ str_exn (Exn ''timeout''))) \<and>
      map_of env ''oauth_required'' = None"
    by blast
  then have two: "\<exists>env. snd (call_tool check_failed_world ?c) = Inr env \<and>
      map_of env ''error'' = Some (PStr ''Failed to check OAuth connection: timeout'') \<and>
      map_of env ''oauth_required'' = None"
    by simp
  from gate_envelopes [OF app valid c3] k3
  have "\<exists>env. snd (call_tool connection_query_raises_world ?c) = Inr env \<and>
      offered_url ?ent3 GMAIL_APP_NAME \<noteq> [] \<and>
      map_of env ''oauth_required'' = Some (PBool True) \<and>
      map_of env ''oauth_url'' = Some (PStr (offered_url ?ent3 GMAIL_APP_NAME))"
    by blast
  then have three: "\<exists>env. snd (call_tool connection_query_raises_world ?c) = Inr env \<and>
      map_of env ''oauth_required'' = Some (PBool True) \<and>
      map_of env ''oauth_url'' = Some (PStr ''https://connect.example/start'')"
    unfolding u3 by blast
  from one two three show ?thesis by blast
qed


subsection \<open>C2: exceptions that cross the tool boundary\<close>

text \<open>
  C2, as stated, fails: an exception raised by the credential manager's \<^verbatim>\<open>get\<close> (and
  likewise by the constructor of the client) is raised inside
  \<^verbatim>\<open>_get_composio_client\<close>, outside every \<^verbatim>\<open>try\<close>, and leaves the handler.
\<close>

theorem credential_exception_escapes:
  "snd (call_tool (demo_world (Inl (Exn ''credential store unavailable''))
                     (Inl (Exn ''unused'')))
          (Gmail_send_email ''a@example.com'' ''Hello'' ''Text'' [] [])) =
     Inl (Exn ''credential store unavailable'') \<and>
   \<not> (\<exists>env. snd (call_tool (demo_world (Inl (Exn ''credential store unavailable''))
                     (Inl (Exn ''unused'')))
          (Gmail_send_email ''a@example.com'' ''Hello'' ''Text'' [] [])) = Inr env)"
  by (simp add: model_defs)


text \<open>
  C2, amended. Whenever the resolution of the client (\<^verbatim>\<open>_get_composio_client\<close>: the
  credential lookup and the construction of the client) returns normally, every tool
  handler returns an envelope, for every input and every behaviour of the remote client
  (entity lookup, connection query, initiation of the flow, import and execution of the
  action, each of which may raise).
\<close>

theorem handlers_return_envelope:
  assumes "snd (get_composio_client w) = Inr r"
  shows "\<exists>env. snd (call_tool w c) = Inr env"
proof (cases rule: call_tool_forms [of c w])
  case profile
  then show ?thesis by simp
next
  case (invalid app env)
  then show ?thesis by simp
next
  case (gated app prefix a params reshape)
  show ?thesis
    using assms
    by (cases rule: gated_outcome [of w app prefix a params reshape])
       (simp_all add: gated(3))
qed



theorem handlers_return_envelope_witness:
  "snd (get_composio_client (connected_world (Inl (Exn ''network down'')))) =
     Inr (Some (demo_client
          (Inr (demo_entity (Inr (Some \<lparr>status = Some ''ACTIVE''\<rparr>)) (Inl (Exn ''unused''))))
          (Inl (Exn ''network down''))), None) \<and>
   (\<exists>env. snd (call_tool (connected_world (Inl (Exn ''network down'')))
                (Gmail_send_email ''a@example.com'' ''Hello'' ''Text'' [] [])) = Inr env) \<and>
   snd (call_tool (connected_world (Inl (Exn ''network down'')))
          (Gmail_send_email ''a@example.com'' ''Hello'' ''Text'' [] [])) =
     Inr [(''error'', PStr ''Gmail send failed: network down'')]"
proof -
  have h: "snd (get_composio_client (connected_world (Inl (Exn ''network down'')))) =
     Inr (Some (demo_client
          (Inr (demo_entity (Inr (Some \<lparr>status = Some ''ACTIVE''\<rparr>)) (Inl (Exn ''unused''))))
          (Inl (Exn ''network down''))), None)"
    by (simp add: model_defs)
  have v: "snd (call_tool (connected_world (Inl (Exn ''network down'')))
          (Gmail_send_email ''a@example.com'' ''Hello'' ''Text'' [] [])) =
     Inr [(''error'', PStr ''Gmail send failed: network down'')]"
    by (simp add: model_defs)
  from handlers_return_envelope [OF h] h v show ?thesis by blast
qed


subsection \<open>C3: no credential\<close>

text \<open>
  C3. For every tool except \<^verbatim>\<open>linkedin_get_profile\<close> and every input: if the credential
  manager, when one is given, returns nothing for the key, and the environment variable,
  when it is the one consulted, is unset, the handler returns an envelope with an
  \<^verbatim>\<open>error\<close> string and no \<^verbatim>\<open>oauth_required\<close> key, and its trace holds no remote call.
\<close>

theorem no_credential_no_remote_call:
  assumes "\<forall>profile_id. c \<noteq> Linkedin_get_profile profile_id"
      and "\<forall>cm. credentials w = Some cm \<longrightarrow> cm ''composio'' = Inr None"
      and "credentials w = None \<longrightarrow> getenv w ''COMPOSIO_API_KEY'' = None"
  shows "\<exists>env msg. snd (call_tool w c) = Inr env \<and>
           map_of env ''error'' = Some (PStr msg) \<and>
           map_of env ''oauth_required'' = None \<and>
           (\<forall>ev\<in>set (fst (call_tool w c)). \<not> is_remote ev)"
proof (cases rule: call_tool_forms [of c w])
  case profile
  then have "\<exists>p. c = Linkedin_get_profile p" by (cases c) simp_all
  with assms(1) show ?thesis by blast
next
  case (invalid app env)
  from validation_error_shape [OF invalid(2)] invalid(3) show ?thesis by auto
next
  case (gated app prefix a params reshape)
  from no_credential_client [OF assms(2,3)] obtain t0 msg0
    where g: "get_composio_client w = (t0, Inr (None, Some msg0))" by blast
  show ?thesis
    using g
    by (cases rule: gated_outcome [of w app prefix a params reshape])
       (simp_all add: gated(3))
qed



theorem no_credential_no_remote_call_witness:
  "call_tool no_credential_world (Linkedin_send_message ''urn:li:person:1'' ''Hello'') =
     ([EnsureOAuthConnection LINKEDIN_APP_NAME, CredentialGet ''composio''],
      Inr [(''error'', PStr api_key_not_set)]) \<and>
   (\<exists>env msg.
      snd (call_tool no_credential_world (Linkedin_send_message ''urn:li:person:1'' ''Hello'')) =
        Inr env \<and>
      map_of env ''error'' = Some (PStr msg) \<and> map_of env ''oauth_required'' = None)"
proof -
  let ?c = "Linkedin_send_message ''urn:li:person:1'' ''Hello''"
  have a: "\<forall>profile_id. ?c \<noteq> Linkedin_get_profile profile_id" by simp
  have b: "\<forall>cm. credentials no_credential_world = Some cm \<longrightarrow> cm ''composio'' = Inr None"
    by (auto simp: no_credential_world_def demo_world_def)
  have c: "credentials no_credential_world = None \<longrightarrow>
           getenv no_credential_world ''COMPOSIO_API_KEY'' = None"
    by (simp add: no_credential_world_def demo_world_def)
  have d: "call_tool no_credential_world ?c =
     ([EnsureOAuthConnection LINKEDIN_APP_NAME, CredentialGet ''composio''],
      Inr [(''error'', PStr api_key_not_set)])"
    by (simp add: model_defs)
  from no_credential_no_remote_call [OF a b c] d show ?thesis by blast
qed


subsection \<open>C4: when a connection counts as active\<close>

text \<open>
  C4. When the entity lookup and the connection query return, the check reports
  \<^verbatim>\<open>connected\<close> exactly when a connection record exists and its status is
  \<^verbatim>\<open>"ACTIVE"\<close> or absent. In that case no authorisation flow is initiated; for a missing
  record or any other status the check initiates a new flow and reports \<^verbatim>\<open>not connected\<close>
  with a non-empty URL.
\<close>

theorem active_connection_rule:
  assumes "get_entity c eid = Inr ent" and "get_connection ent app = Inr conn"
  shows
    "(snd (check_oauth_connection (Some c) app eid) = Inr (True, None, None)) =
       (\<exists>cn. conn = Some cn \<and> (status cn = Some ''ACTIVE'' \<or> status cn = None)) \<and>
     ((\<exists>cn. conn = Some cn \<and> (status cn = Some ''ACTIVE'' \<or> status cn = None)) \<longrightarrow>
        fst (check_oauth_connection (Some c) app eid) = [GetEntity eid, GetConnection app]) \<and>
     (\<not> (\<exists>cn. conn = Some cn \<and> (status cn = Some ''ACTIVE'' \<or> status cn = None)) \<longrightarrow>
        fst (check_oauth_connection (Some c) app eid) =
          [GetEntity eid, GetConnection app,
           InitiateConnection app ''https://app.composio.dev/connections''] \<and>
        (\<exists>u. u \<noteq> [] \<and>
           snd (check_oauth_connection (Some c) app eid) = Inr (False, Some u, None)))"
proof (cases "connection_active conn")
  case True
  then have "\<exists>cn. conn = Some cn \<and> (status cn = Some ''ACTIVE'' \<or> status cn = None)"
    by (auto simp: connection_active_def split: option.splits)
  with check_active [OF assms True] show ?thesis by simp
next
  case False
  then have n: "\<not> (\<exists>cn. conn = Some cn \<and> (status cn = Some ''ACTIVE'' \<or> status cn = None))"
    by (auto simp: connection_active_def split: option.splits)
  have "\<not> (\<exists>cn. get_connection ent app = Inr cn \<and> connection_active cn)"
    using assms(2) False by simp
  from check_inactive [OF assms(1) this] n offered_url_nonempty [of ent app]
  show ?thesis by simp
qed



theorem active_connection_rule_witness:
  "check_oauth_connection
     (Some (demo_client
        (Inr (demo_entity (Inr (Some \<lparr>status = Some ''EXPIRED''\<rparr>))
                (Inr \<lparr>redirectUrl = Some ''https://connect.example/start''\<rparr>)))
        (Inl (Exn ''unused''))))
     GMAIL_APP_NAME ''default'' =
     ([GetEntity ''default'', GetConnection GMAIL_APP_NAME,
       InitiateConnection GMAIL_APP_NAME ''https://app.composio.dev/connections''],
      Inr (False, Some ''https://connect.example/start'', None)) \<and>
   snd (check_oauth_connection
     (Some (demo_client
        (Inr (demo_entity (Inr (Some \<lparr>status = None\<rparr>)) (Inl (Exn ''unused''))))
        (Inl (Exn ''unused''))))
     GMAIL_APP_NAME ''default'') = Inr (True, None, None)"
proof -
  let ?e1 = "demo_entity (Inr (Some \<lparr>status = Some ''EXPIRED''\<rparr>))
                (Inr \<lparr>redirectUrl = Some ''https://connect.example/start''\<rparr>)"
  let ?e2 = "demo_entity (Inr (Some \<lparr>status = None\<rparr>)) (Inl (Exn ''unused''))"
  let ?c1 = "demo_client (Inr ?e1) (Inl (Exn ''unused''))"
  let ?c2 = "demo_client (Inr ?e2) (Inl (Exn ''unused''))"
  have a1: "get_entity ?c1 ''default'' = Inr ?e1" by (simp add: demo_client_def)
  have b1: "get_connection ?e1 GMAIL_APP_NAME = Inr (Some \<lparr>status = Some ''EXPIRED''\<rparr>)"
    by (simp add: demo_entity_def)
  have a2: "get_entity ?c2 ''default'' = Inr ?e2" by (simp add: demo_client_def)
  have b2: "get_connection ?e2 GMAIL_APP_NAME = Inr (Some \<lparr>status = None\<rparr>)"
    by (simp add: demo_entity_def)
  have one: "check_oauth_connection (Some ?c1) GMAIL_APP_NAME ''default'' =
     ([GetEntity ''default'', GetConnection GMAIL_APP_NAME,
       InitiateConnection GMAIL_APP_NAME ''https://app.composio.dev/connections''],
      Inr (False, Some ''https://connect.example/start'', None))"
    by (simp add: model_defs)
  from active_connection_rule [OF a2 b2]
  have two: "snd (check_oauth_connection (Some ?c2) GMAIL_APP_NAME ''default'') =
      Inr (True, None, None)"
    by simp
  from active_connection_rule [OF a1 b1] one two show ?thesis by simp
qed


subsection \<open>C5: no action before a confirmed connection\<close>

text \<open>
  C5. For every tool call in every world: an \<^verbatim>\<open>execute_action\<close> event occurs in the
  trace only if the gate returned a client and no error envelope, its check having
  reported \<^verbatim>\<open>connected\<close>, and the event then comes last, after the whole trace of the
  gate. When the gate returns an error envelope to a handler whose validation passed,
  the handler returns exactly that envelope and its trace is the gate's, with no action
  executed.
\<close>

theorem action_only_after_connected:
  "(\<forall>ev\<in>set (fst (call_tool w c)). is_execute_action ev \<longrightarrow>
      (\<exists>app t cl. tool_app c = Some app \<and>
         ensure_oauth_connection w app = (t, Inr (Some cl, None)) \<and>
         snd (check_oauth_connection (Some cl) app ''default'') = Inr (True, None, None) \<and>
         fst (call_tool w c) = t @ [ev])) \<and>
   (\<forall>app t cl env. tool_app c = Some app \<and> validation_error c = None \<and>
        ensure_oauth_connection w app = (t, Inr (cl, Some env)) \<longrightarrow>
        call_tool w c = (t, Inr env) \<and> (\<forall>ev\<in>set t. \<not> is_execute_action ev))"
proof (cases rule: call_tool_forms [of c w])
  case profile
  then show ?thesis by simp
next
  case (invalid app env)
  then show ?thesis by simp
next
  case (gated app prefix a params reshape)
  show ?thesis
  proof (cases rule: gated_outcome [of w app prefix a params reshape])
    case (raises t e)
    then have "\<forall>ev\<in>set t. \<not> is_execute_action ev"
      by (metis is_execute_action.elims(2) is_remote.simps(4))
    with raises gated show ?thesis by simp
  next
    case (no_client t msg)
    then have "\<forall>ev\<in>set t. \<not> is_execute_action ev"
      by (metis is_execute_action.elims(2) is_remote.simps(4))
    with no_client gated show ?thesis by simp
  next
    case (check_failed t c t' msg)
    with gated show ?thesis by (simp add: ball_Un)
  next
    case (not_connected t c t' u)
    with gated show ?thesis by (simp add: ball_Un)
  next
    case (connected t cl t')
    with gated show ?thesis
      using execute_action_step_trace [of w "Some cl" a params]
      by (auto simp: ball_Un)
  qed
qed



theorem action_only_after_connected_witness:
  "call_tool (connected_world (Inr (PDict sent_result)))
     (Linkedin_send_message ''urn:li:person:1'' ''Hello'') =
     ([EnsureOAuthConnection LINKEDIN_APP_NAME, CredentialGet ''composio'', NewClient ''key'',
       GetEntity ''default'', GetConnection LINKEDIN_APP_NAME,
       ExecuteAction LINKEDIN_SEND_MESSAGE
         [(''recipient_id'', PStr ''urn:li:person:1''), (''message'', PStr ''Hello'')]],
      Inr [(''success'', PBool True), (''message_id'', PStr ''abc123''),
           (''message'', PStr ''Message sent successfully'')]) \<and>
   call_tool not_connected_world (Linkedin_send_message ''urn:li:person:1'' ''Hello'') =
     ([EnsureOAuthConnection LINKEDIN_APP_NAME, CredentialGet ''composio'', NewClient ''key'',
       GetEntity ''default'', GetConnection LINKEDIN_APP_NAME,
       InitiateConnection LINKEDIN_APP_NAME ''https://app.composio.dev/connections''],
      Inr (oauth_required_envelope LINKEDIN_APP_NAME (Some ''https://connect.example/start'')))"
proof -
  let ?c = "Linkedin_send_message ''urn:li:person:1'' ''Hello''"
  let ?t = "[EnsureOAuthConnection LINKEDIN_APP_NAME, CredentialGet ''composio'', NewClient ''key'',
       GetEntity ''default'', GetConnection LINKEDIN_APP_NAME,
       InitiateConnection LINKEDIN_APP_NAME ''https://app.composio.dev/connections'']"
  have one: "call_tool (connected_world (Inr (PDict sent_result))) ?c =
     ([EnsureOAuthConnection LINKEDIN_APP_NAME, CredentialGet ''composio'', NewClient ''key'',
       GetEntity ''default'', GetConnection LINKEDIN_APP_NAME,
       ExecuteAction LINKEDIN_SEND_MESSAGE
         [(''recipient_id'', PStr ''urn:li:person:1''), (''message'', PStr ''Hello'')]],
      Inr [(''success'', PBool True), (''message_id'', PStr ''abc123''),
           (''message'', PStr ''Message sent successfully'')])"
    by (simp add: model_defs send_message_result_def)
  have app: "tool_app ?c = Some LINKEDIN_APP_NAME" and valid: "validation_error ?c = None"
    by simp_all
  have gate: "ensure_oauth_connection not_connected_world LINKEDIN_APP_NAME =
      (?t, Inr (None,
         Some (oauth_required_envelope LINKEDIN_APP_NAME (Some ''https://connect.example/start''))))"
    by (simp add: model_defs)
  from action_only_after_connected [of not_connected_world ?c] app valid gate
  have two: "call_tool not_connected_world ?c =
      (?t, Inr (oauth_required_envelope LINKEDIN_APP_NAME (Some ''https://connect.example/start'')))"
    by blast
  from one two show ?thesis by simp
qed


subsection \<open>C6: the length bounds of a post\<close>

text \<open>
  C6. \<^verbatim>\<open>linkedin_create_post\<close> with the empty text, and with a text of length 3001,
  returns the validation error envelope with an empty trace: the connection gate is not
  called, no credential is looked up, nothing remote is called. With a text of length
  exactly 3000 the handler proceeds to the connection gate: its trace starts with the
  trace of the gate, whose first event is the entry of the gate.
\<close>

theorem create_post_length_validation:
  "linkedin_create_post w [] visibility =
     ([], Inr [(''error'', PStr ''Post text must be 1-3000 characters'')]) \<and>
   (length content = 3001 \<longrightarrow>
      linkedin_create_post w content visibility =
        ([], Inr [(''error'', PStr ''Post text must be 1-3000 characters'')])) \<and>
   (length content = 3000 \<longrightarrow>
      (\<exists>rest rest'.
         fst (linkedin_create_post w content visibility) =
           fst (ensure_oauth_connection w LINKEDIN_APP_NAME) @ rest \<and>
         fst (ensure_oauth_connection w LINKEDIN_APP_NAME) =
           EnsureOAuthConnection LINKEDIN_APP_NAME # rest'))"
proof -
  have a: "linkedin_create_post w [] visibility =
     ([], Inr [(''error'', PStr ''Post text must be 1-3000 characters'')])"
    by (simp add: linkedin_create_post_def io_return_def)
  have b: "length content = 3001 \<longrightarrow>
      linkedin_create_post w content visibility =
        ([], Inr [(''error'', PStr ''Post text must be 1-3000 characters'')])"
    by (simp add: linkedin_create_post_def io_return_def)
  have c: "length content = 3000 \<longrightarrow>
      (\<exists>rest rest'.
         fst (linkedin_create_post w content visibility) =
           fst (ensure_oauth_connection w LINKEDIN_APP_NAME) @ rest \<and>
         fst (ensure_oauth_connection w LINKEDIN_APP_NAME) =
           EnsureOAuthConnection LINKEDIN_APP_NAME # rest')"
  proof
    assume len: "length content = 3000"
    then have ne: "content \<noteq> []" by auto
    have "linkedin_create_post w content visibility =
        gated_action w LINKEDIN_APP_NAME ''LinkedIn post failed: '' LINKEDIN_CREATE_LINKED_IN_POST
          [(''text'', PStr content),
           (''visibility'',
            PStr (if visibility \<notin> set [''PUBLIC'', ''CONNECTIONS'', ''LOGGED_IN'']
                  then ''PUBLIC'' else visibility))]
          create_post_result"
      using len ne by (simp add: linkedin_create_post_def gated_action_def Let_def)
    then show "\<exists>rest rest'.
         fst (linkedin_create_post w content visibility) =
           fst (ensure_oauth_connection w LINKEDIN_APP_NAME) @ rest \<and>
         fst (ensure_oauth_connection w LINKEDIN_APP_NAME) =
           EnsureOAuthConnection LINKEDIN_APP_NAME # rest'"
      using gated_trace_prefix by simp
  qed
  from a b c show ?thesis by blast
qed



theorem create_post_length_validation_witness:
  "length (replicate 3001 (CHR ''a'')) = 3001 \<and>
   linkedin_create_post no_credential_world (replicate 3001 (CHR ''a'')) ''PUBLIC'' =
     ([], Inr [(''error'', PStr ''Post text must be 1-3000 characters'')]) \<and>
   length (replicate 3000 (CHR ''a'')) = 3000 \<and>
   (\<exists>rest rest'.
      fst (linkedin_create_post no_credential_world (replicate 3000 (CHR ''a'')) ''PUBLIC'') =
        fst (ensure_oauth_connection no_credential_world LINKEDIN_APP_NAME) @ rest \<and>
      fst (ensure_oauth_connection no_credential_world LINKEDIN_APP_NAME) =
        EnsureOAuthConnection LINKEDIN_APP_NAME # rest')"
proof -
  have a: "length (replicate 3001 (CHR ''a'')) = 3001"
    and b: "length (replicate 3000 (CHR ''a'')) = 3000"
    by simp_all
  from create_post_length_validation
    [of no_credential_world "''PUBLIC''" "replicate 3001 (CHR ''a'')"] a
  have one: "linkedin_create_post no_credential_world (replicate 3001 (CHR ''a'')) ''PUBLIC'' =
     ([], Inr [(''error'', PStr ''Post text must be 1-3000 characters'')])"
    by blast
  from create_post_length_validation
    [of no_credential_world "''PUBLIC''" "replicate 3000 (CHR ''a'')"] b
  have two: "\<exists>rest rest'.
      fst (linkedin_create_post no_credential_world (replicate 3000 (CHR ''a'')) ''PUBLIC'') =
        fst (ensure_oauth_connection no_credential_world LINKEDIN_APP_NAME) @ rest \<and>
      fst (ensure_oauth_connection no_credential_world LINKEDIN_APP_NAME) =
        EnsureOAuthConnection LINKEDIN_APP_NAME # rest'"
    by blast
  from a b one two show ?thesis by blast
qed


subsection \<open>C7: a sent email\<close>

text \<open>
  C7. If \<^verbatim>\<open>to\<close>, \<^verbatim>\<open>subject\<close> and \<^verbatim>\<open>body\<close> are non-empty, the gate returns a client
  and no error envelope (so the credential is present and the account connected), and
  the remote call returns a result with \<^verbatim>\<open>successful: true\<close> whose \<^verbatim>\<open>data\<close> has
  \<^verbatim>\<open>id = "abc123"\<close> and no \<^verbatim>\<open>threadId\<close>, then \<^verbatim>\<open>gmail_send_email\<close> returns exactly
  the envelope with \<^verbatim>\<open>success: true\<close>, \<^verbatim>\<open>message_id: "abc123"\<close>, \<^verbatim>\<open>thread_id: None\<close>
  and \<^verbatim>\<open>message: "Email sent successfully"\<close>.
\<close>

theorem send_email_success_envelope:
  assumes "to \<noteq> []" and "subject \<noteq> []" and "body \<noteq> []"
      and "ensure_oauth_connection w GMAIL_APP_NAME = (t, Inr (Some cl, None))"
      and "snd (execute_action_step w (Some cl) GMAIL_SEND_EMAIL
                 ([(''to'', PStr to), (''subject'', PStr subject), (''body'', PStr body)] @
                  optional_param ''cc'' cc @ optional_param ''bcc'' bcc)) = Inr (PDict result)"
      and "map_of result ''successful'' = Some (PBool True)"
      and "map_of result ''data'' = Some (PDict data)"
      and "map_of data ''id'' = Some (PStr ''abc123'')"
      and "map_of data ''threadId'' = None"
  shows "snd (gmail_send_email w to subject body cc bcc) =
           Inr [(''success'', PBool True),
                (''message_id'', PStr ''abc123''),
                (''thread_id'', PNone),
                (''message'', PStr ''Email sent successfully'')]"
proof -
  have g: "gmail_send_email w to subject body cc bcc =
      gated_action w GMAIL_APP_NAME ''Gmail send failed: '' GMAIL_SEND_EMAIL
        ([(''to'', PStr to), (''subject'', PStr subject), (''body'', PStr body)] @
         optional_param ''cc'' cc @ optional_param ''bcc'' bcc)
        send_email_result"
    using assms(1-3) by (simp add: gmail_send_email_def gated_action_def)
  have r: "send_email_result (PDict result) =
           Inr [(''success'', PBool True),
                (''message_id'', PStr ''abc123''),
                (''thread_id'', PNone),
                (''message'', PStr ''Email sent successfully'')]"
    using assms(6-9) by (simp add: send_email_result_def data_get_def ex_bind_def)
  show ?thesis
    unfolding g using assms(4,5) r
    by (simp add: gated_action_unfold ex_bind_def)
qed



theorem send_email_success_envelope_witness:
  "ensure_oauth_connection (connected_world (Inr (PDict sent_result))) GMAIL_APP_NAME =
     ([EnsureOAuthConnection GMAIL_APP_NAME, CredentialGet ''composio'', NewClient ''key'',
       GetEntity ''default'', GetConnection GMAIL_APP_NAME],
      Inr (Some (demo_client
             (Inr (demo_entity (Inr (Some \<lparr>status = Some ''ACTIVE''\<rparr>)) (Inl (Exn ''unused''))))
             (Inr (PDict sent_result))), None)) \<and>
   snd (gmail_send_email (connected_world (Inr (PDict sent_result)))
          ''a@example.com'' ''Hello'' ''Text'' [] []) =
     Inr [(''success'', PBool True),
          (''message_id'', PStr ''abc123''),
          (''thread_id'', PNone),
          (''message'', PStr ''Email sent successfully'')]"
proof -
  let ?w = "connected_world (Inr (PDict sent_result))"
  let ?cl = "demo_client
             (Inr (demo_entity (Inr (Some \<lparr>status = Some ''ACTIVE''\<rparr>)) (Inl (Exn ''unused''))))
             (Inr (PDict sent_result))"
  have ne: "''a@example.com'' \<noteq> []" "''Hello'' \<noteq> []" "''Text'' \<noteq> []" by simp_all
  have gate: "ensure_oauth_connection ?w GMAIL_APP_NAME =
     ([EnsureOAuthConnection GMAIL_APP_NAME, CredentialGet ''composio'', NewClient ''key'',
       GetEntity ''default'', GetConnection GMAIL_APP_NAME], Inr (Some ?cl, None))"
    by (simp add: model_defs)
  have step: "snd (execute_action_step ?w (Some ?cl) GMAIL_SEND_EMAIL
                 ([(''to'', PStr ''a@example.com''), (''subject'', PStr ''Hello''),
                   (''body'', PStr ''Text'')] @
                  optional_param ''cc'' [] @ optional_param ''bcc'' [])) = Inr (PDict sent_result)"
    by (simp add: model_defs)
  have r: "map_of sent_result ''successful'' = Some (PBool True)"
    "map_of sent_result ''data'' = Some (PDict [(''id'', PStr ''abc123'')])"
    "map_of [(''id'', PStr ''abc123'')] ''id'' = Some (PStr ''abc123'')"
    "map_of [(''id'', PStr ''abc123'')] ''threadId'' = None"
    by (simp_all add: sent_result_def)
  from send_email_success_envelope [OF ne gate step r] gate show ?thesis by simp
qed


subsection \<open>C8: clamping \<^verbatim>\<open>max_results\<close>\<close>

text \<open>
  C8. \<^verbatim>\<open>gmail_read_emails\<close> on \<^verbatim>\<open>max_results\<close> behaves as on the value clamped into
  the range from 1 to 100: 500 is treated as 100 and 0 as 1. No value is rejected: for
  every value the first event is the entry of the connection gate, and an executed
  action carries the clamped value as its \<^verbatim>\<open>max_results\<close> parameter.
\<close>

theorem read_emails_clamp:
  "gmail_read_emails w max_results label unread_only =
     gmail_read_emails w (max 1 (min 100 max_results)) label unread_only \<and>
   gmail_read_emails w 500 label unread_only = gmail_read_emails w 100 label unread_only \<and>
   gmail_read_emails w 0 label unread_only = gmail_read_emails w 1 label unread_only \<and>
   1 \<le> max 1 (min 100 max_results) \<and> max 1 (min 100 max_results) \<le> 100 \<and>
   (\<exists>rest. fst (gmail_read_emails w max_results label unread_only) =
      EnsureOAuthConnection GMAIL_APP_NAME # rest) \<and>
   (\<forall>a params.
      ExecuteAction a params \<in> set (fst (gmail_read_emails w max_results label unread_only)) \<longrightarrow>
      map_of params ''max_results'' = Some (PInt (max 1 (min 100 max_results))))"
proof -
  have a: "gmail_read_emails w max_results label unread_only =
     gmail_read_emails w (max 1 (min 100 max_results)) label unread_only"
    by (simp add: gmail_read_emails_def Let_def)
  have b: "gmail_read_emails w 500 label unread_only = gmail_read_emails w 100 label unread_only"
    by (simp add: gmail_read_emails_def Let_def)
  have c: "gmail_read_emails w 0 label unread_only = gmail_read_emails w 1 label unread_only"
    by (simp add: gmail_read_emails_def Let_def)
  have d: "1 \<le> max 1 (min 100 max_results) \<and> max 1 (min 100 max_results) \<le> 100"
    by simp
  have e: "\<exists>rest. fst (gmail_read_emails w max_results label unread_only) =
      EnsureOAuthConnection GMAIL_APP_NAME # rest"
    unfolding read_emails_gated
    using gated_trace_prefix
      [of w GMAIL_APP_NAME "''Gmail read failed: ''" GMAIL_FETCH_EMAILS]
    by (metis append_Cons)
  have f: "\<forall>a params.
      ExecuteAction a params \<in> set (fst (gmail_read_emails w max_results label unread_only)) \<longrightarrow>
      map_of params ''max_results'' = Some (PInt (max 1 (min 100 max_results)))"
  proof (intro allI impI)
    fix a params
    assume "ExecuteAction a params \<in> set (fst (gmail_read_emails w max_results label unread_only))"
    from gated_execute_events [OF this [unfolded read_emails_gated]]
    show "map_of params ''max_results'' = Some (PInt (max 1 (min 100 max_results)))"
      by simp
  qed
  from a b c d e f show ?thesis by blast
qed



theorem read_emails_clamp_witness:
  "ExecuteAction GMAIL_FETCH_EMAILS
     [(''max_results'', PInt 100), (''label_ids'', PList [PStr ''INBOX''])]
     \<in> set (fst (gmail_read_emails (connected_world (Inr three_messages_result)) 500
                    ''INBOX'' False)) \<and>
   map_of [(''max_results'', PInt 100), (''label_ids'', PList [PStr ''INBOX''])] ''max_results'' =
     Some (PInt (max 1 (min 100 500)))"
proof -
  let ?w = "connected_world (Inr three_messages_result)"
  have ev: "ExecuteAction GMAIL_FETCH_EMAILS
     [(''max_results'', PInt 100), (''label_ids'', PList [PStr ''INBOX''])]
     \<in> set (fst (gmail_read_emails ?w 500 ''INBOX'' False))"
    by (simp add: model_defs read_emails_result_def read_email_item_def slice_upto_def)
  from read_emails_clamp [of ?w 500 "''INBOX''" False] ev
  have "map_of [(''max_results'', PInt 100), (''label_ids'', PList [PStr ''INBOX''])]
          ''max_results'' = Some (PInt (max 1 (min 100 500)))"
    by blast
  with ev show ?thesis by blast
qed


subsection \<open>C9: the sample profile\<close>

text \<open>
  C9. \<^verbatim>\<open>linkedin_get_profile\<close> returns the same fixed sample profile, with
  \<^verbatim>\<open>success: true\<close>, for every \<^verbatim>\<open>profile_id\<close> and in every world (whether or not a
  credential can be resolved), and its trace is empty: no credential lookup, no call of
  the connection gate, no remote call.
\<close>

theorem get_profile_fixed_sample:
  "call_tool w (Linkedin_get_profile profile_id) = ([], Inr sample_profile) \<and>
   linkedin_get_profile w profile_id = ([], Inr sample_profile) \<and>
   map_of sample_profile ''success'' = Some (PBool True)"
  by (simp add: linkedin_get_profile_def io_return_def sample_profile_def)

theorem get_profile_fixed_sample_witness:
  "call_tool (demo_world (Inl (Exn ''no store'')) (Inl (Exn ''no client'')))
     (Linkedin_get_profile ''me'') = ([], Inr sample_profile)"
  using get_profile_fixed_sample
    [of "demo_world (Inl (Exn ''no store'')) (Inl (Exn ''no client''))" "''me''"]
  by simp


subsection \<open>C10: truncated listings and the full total\<close>

text \<open>
  C10, as stated, fails for an argument below 1: \<^verbatim>\<open>max_results = 0\<close> is clamped to 1, and
  a successful call on three remote messages returns one entry, which is more than the
  argument allows.
\<close>

theorem zero_max_results_returns_one_entry:
  "snd (gmail_read_emails (connected_world (Inr three_messages_result)) 0 ''INBOX'' False) =
     Inr [(''success'', PBool True),
          (''emails'',
           PList [PDict [(''id'', PStr ''m1''), (''thread_id'', PNone), (''from'', PNone),
                         (''to'', PNone), (''subject'', PNone), (''snippet'', PNone),
                         (''date'', PNone), (''is_unread'', PBool False)]]),
          (''total'', PInt 3)] \<and>
   \<not> int (length [PDict [(''id'', PStr ''m1''), (''thread_id'', PNone), (''from'', PNone),
                          (''to'', PNone), (''subject'', PNone), (''snippet'', PNone),
                          (''date'', PNone), (''is_unread'', PBool False)]]) \<le> 0"
  by (simp add: model_defs read_emails_result_def read_email_item_def slice_upto_def)

text \<open>
  C10, amended. Whenever \<^verbatim>\<open>gmail_read_emails\<close> or \<^verbatim>\<open>gmail_search_emails\<close> returns a
  success envelope, the gate had returned a client, the remote call returned a result
  with a message list, the returned list (\<^verbatim>\<open>emails\<close>, respectively \<^verbatim>\<open>results\<close>) has
  the smaller of the length of the remote list and of the argument \<^verbatim>\<open>max_results\<close>
  clamped into 1 to 100 entries, hence at most that clamped value (and at most the
  argument itself whenever the argument is at least 1), and \<^verbatim>\<open>total\<close> is the length of
  the whole remote list, so that \<^verbatim>\<open>total\<close> may exceed the number of entries returned.
  The instances below have three remote messages and \<^verbatim>\<open>max_results = 2\<close>: reading and
  searching each return two entries and \<^verbatim>\<open>total\<close> 3.
\<close>

theorem listing_truncated_total_full:
  "(\<forall>env. snd (gmail_read_emails w max_results label unread_only) = Inr env \<and>
          map_of env ''success'' = Some (PBool True) \<longrightarrow>
      (\<exists>t cl params result messages emails total.
         ensure_oauth_connection w GMAIL_APP_NAME = (t, Inr (Some cl, None)) \<and>
         execute_action cl GMAIL_FETCH_EMAILS params = Inr result \<and>
         data_get result ''messages'' (PList []) = Inr messages \<and>
         py_len messages = Inr total \<and>
         map_of env ''emails'' = Some (PList emails) \<and>
         map_of env ''total'' = Some (PInt total) \<and>
         int (length emails) = min total (max 1 (min 100 max_results)) \<and>
         int (length emails) \<le> max 1 (min 100 max_results) \<and>
         (1 \<le> max_results \<longrightarrow> int (length emails) \<le> max_results))) \<and>
   (\<forall>env. snd (gmail_search_emails w query max_results) = Inr env \<and>
          map_of env ''success'' = Some (PBool True) \<longrightarrow>
      (\<exists>t cl params result messages results total.
         ensure_oauth_connection w GMAIL_APP_NAME = (t, Inr (Some cl, None)) \<and>
         execute_action cl GMAIL_FETCH_EMAILS params = Inr result \<and>
         data_get result ''messages'' (PList []) = Inr messages \<and>
         py_len messages = Inr total \<and>
         map_of env ''results'' = Some (PList results) \<and>
         map_of env ''total'' = Some (PInt total) \<and>
         int (length results) = min total (max 1 (min 100 max_results)) \<and>
         int (length results) \<le> max 1 (min 100 max_results) \<and>
         (1 \<le> max_results \<longrightarrow> int (length results) \<le> max_results)))"
proof (intro conjI allI impI)
  fix env
  assume a: "snd (gmail_read_emails w max_results label unread_only) = Inr env \<and>
          map_of env ''success'' = Some (PBool True)"
  from gated_success [OF a [unfolded read_emails_gated, THEN conjunct1] a [THEN conjunct2]]
  obtain t cl result where g:
    "ensure_oauth_connection w GMAIL_APP_NAME = (t, Inr (Some cl, None))"
    "execute_action cl GMAIL_FETCH_EMAILS
       ([(''max_results'', PInt (max 1 (min 100 max_results))), (''label_ids'', PList [PStr label])] @
        (if unread_only then [(''query'', PStr ''is:unread'')] else [])) = Inr result"
    "read_emails_result (max 1 (min 100 max_results)) result = Inr env"
    by blast
  have k: "0 \<le> max 1 (min 100 max_results)" by simp
  from listing_success [OF g(3) [unfolded read_emails_result_def] a [THEN conjunct2] k]
  obtain messages emails total where
    "data_get result ''messages'' (PList []) = Inr messages"
    "py_len messages = Inr total"
    "env = [(''success'', PBool True), (''emails'', PList emails), (''total'', PInt total)]"
    "int (length emails) = min total (max 1 (min 100 max_results))"
    by blast
  with g(1,2) show "\<exists>t cl params result messages emails total.
         ensure_oauth_connection w GMAIL_APP_NAME = (t, Inr (Some cl, None)) \<and>
         execute_action cl GMAIL_FETCH_EMAILS params = Inr result \<and>
         data_get result ''messages'' (PList []) = Inr messages \<and>
         py_len messages = Inr total \<and>
         map_of env ''emails'' = Some (PList emails) \<and>
         map_of env ''total'' = Some (PInt total) \<and>
         int (length emails) = min total (max 1 (min 100 max_results)) \<and>
         int (length emails) \<le> max 1 (min 100 max_results) \<and>
         (1 \<le> max_results \<longrightarrow> int (length emails) \<le> max_results)"
    by (intro exI [of _ t] exI [of _ cl] exI [of _ result] exI [of _ messages]
          exI [of _ emails] exI [of _ total] exI) auto
next
  fix env
  assume a: "snd (gmail_search_emails w query max_results) = Inr env \<and>
          map_of env ''success'' = Some (PBool True)"
  have q: "query \<noteq> []"
  proof
    assume "query = []"
    with a show False by (auto simp: gmail_search_emails_def io_return_def)
  qed
  from gated_success [OF a [unfolded search_emails_gated [OF q], THEN conjunct1] a [THEN conjunct2]]
  obtain t cl result where g:
    "ensure_oauth_connection w GMAIL_APP_NAME = (t, Inr (Some cl, None))"
    "execute_action cl GMAIL_FETCH_EMAILS
       [(''query'', PStr query), (''max_results'', PInt (max 1 (min 100 max_results)))] = Inr result"
    "search_emails_result query (max 1 (min 100 max_results)) result = Inr env"
    by blast
  have k: "0 \<le> max 1 (min 100 max_results)" by simp
  from listing_success [OF g(3) [unfolded search_emails_result_def] a [THEN conjunct2] k]
  obtain messages results total where
    "data_get result ''messages'' (PList []) = Inr messages"
    "py_len messages = Inr total"
    "env = [(''success'', PBool True), (''results'', PList results), (''total'', PInt total),
            (''query'', PStr query)]"
    "int (length results) = min total (max 1 (min 100 max_results))"
    by blast
  with g(1,2) show "\<exists>t cl params result messages results total.
         ensure_oauth_connection w GMAIL_APP_NAME = (t, Inr (Some cl, None)) \<and>
         execute_action cl GMAIL_FETCH_EMAILS params = Inr result \<and>
         data_get result ''messages'' (PList []) = Inr messages \<and>
         py_len messages = Inr total \<and>
         map_of env ''results'' = Some (PList results) \<and>
         map_of env ''total'' = Some (PInt total) \<and>
         int (length results) = min total (max 1 (min 100 max_results)) \<and>
         int (length results) \<le> max 1 (min 100 max_results) \<and>
         (1 \<le> max_results \<longrightarrow> int (length results) \<le> max_results)"
    by (intro exI [of _ t] exI [of _ cl] exI [of _ result] exI [of _ messages]
          exI [of _ results] exI [of _ total] exI) auto
qed



theorem listing_truncated_total_full_witness:
  "(\<exists>env emails.
      snd (gmail_read_emails (connected_world (Inr three_messages_result)) 2 ''INBOX'' False) =
        Inr env \<and>
      map_of env ''success'' = Some (PBool True) \<and>
      map_of env ''emails'' = Some (PList emails) \<and> length emails = 2 \<and>
      map_of env ''total'' = Some (PInt 3)) \<and>
   (\<exists>results.
      snd (gmail_search_emails (connected_world (Inr three_messages_result)) ''from:a'' 2) =
        Inr [(''success'', PBool True),
             (''results'',
              PList [PDict [(''id'', PStr ''m1''), (''thread_id'', PNone), (''from'', PNone),
                            (''to'', PNone), (''subject'', PNone), (''snippet'', PNone),
                            (''date'', PNone)],
                     PDict [(''id'', PStr ''m2''), (''thread_id'', PNone), (''from'', PNone),
                            (''to'', PNone), (''subject'', PNone), (''snippet'', PNone),
                            (''date'', PNone)]]),
             (''total'', PInt 3),
             (''query'', PStr ''from:a'')] \<and>
      length results = 2 \<and>
      map_of [(''success'', PBool True),
             (''results'',
              PList [PDict [(''id'', PStr ''m1''), (''thread_id'', PNone), (''from'', PNone),
                            (''to'', PNone), (''subject'', PNone), (''snippet'', PNone),
                            (''date'', PNone)],
                     PDict [(''id'', PStr ''m2''), (''thread_id'', PNone), (''from'', PNone),
                            (''to'', PNone), (''subject'', PNone), (''snippet'', PNone),
                            (''date'', PNone)]]),
             (''total'', PInt 3),
             (''query'', PStr ''from:a'')] ''results'' = Some (PList results))"
proof -
  let ?w = "connected_world (Inr three_messages_result)"
  let ?senv = "[(''success'', PBool True),
             (''results'',
              PList [PDict [(''id'', PStr ''m1''), (''thread_id'', PNone), (''from'', PNone),
                            (''to'', PNone), (''subject'', PNone), (''snippet'', PNone),
                            (''date'', PNone)],
                     PDict [(''id'', PStr ''m2''), (''thread_id'', PNone), (''from'', PNone),
                            (''to'', PNone), (''subject'', PNone), (''snippet'', PNone),
                            (''date'', PNone)]]),
             (''total'', PInt 3),
             (''query'', PStr ''from:a'')]"
  obtain env where env: "snd (gmail_read_emails ?w 2 ''INBOX'' False) = Inr env"
    "map_of env ''success'' = Some (PBool True)" "map_of env ''total'' = Some (PInt 3)"
    by (simp add: model_defs read_emails_result_def read_email_item_def slice_upto_def)
  from listing_truncated_total_full
    [where w = ?w and max_results = 2 and label = "''INBOX''" and unread_only = False] env
  obtain emails total where e: "map_of env ''emails'' = Some (PList emails)"
    "map_of env ''total'' = Some (PInt total)" "int (length emails) = min total (max 1 (min 100 2))"
    by blast
  from e env(3) have "length emails = 2" by simp
  with env e have one: "\<exists>env emails.
      snd (gmail_read_emails ?w 2 ''INBOX'' False) = Inr env \<and>
      map_of env ''success'' = Some (PBool True) \<and>
      map_of env ''emails'' = Some (PList emails) \<and> length emails = 2 \<and>
      map_of env ''total'' = Some (PInt 3)"
    by blast
  have senv: "snd (gmail_search_emails ?w ''from:a'' 2) = Inr ?senv"
    by (simp add: model_defs search_emails_result_def search_email_item_def slice_upto_def)
  have ok: "map_of ?senv ''success'' = Some (PBool True)" by simp
  from listing_truncated_total_full
    [where w = ?w and max_results = 2 and query = "''from:a''"] senv ok
  obtain results total where r: "map_of ?senv ''results'' = Some (PList results)"
    "map_of ?senv ''total'' = Some (PInt total)"
    "int (length results) = min total (max 1 (min 100 2))"
    by blast
  from r(2) have "total = 3" by simp
  with r(3) have "length results = 2" by simp
  with senv r(1) have two: "\<exists>results.
      snd (gmail_search_emails ?w ''from:a'' 2) = Inr ?senv \<and>
      length results = 2 \<and> map_of ?senv ''results'' = Some (PList results)"
    by blast
  from one two show ?thesis by blast
qed

end
